theory Spec2Isabelle
  imports Complex_Main
begin

section \<open>LeNet notebook: the network, accuracy evaluation and the training loop\<close>

text \<open>
  The notebook \<^verbatim>\<open>chapter_convolutional-neural-networks/lenet.ipynb\<close> declares a network,
  prints the shape of every layer's output, and defines \<^verbatim>\<open>evaluate_accuracy_gpu\<close> and
  \<^verbatim>\<open>train_ch5\<close>. Both functions are sequences of calls into MXNet and the d2l helper
  package. The embedding keeps the notebook's own control flow and arithmetic and takes
  the framework as a parameter: a record of fallible operations on an abstract framework
  state (parameters, gradients, device memory, the clock). Every call the source makes
  is logged, with its arguments and its result, in a trace, so that the order and the
  number of the calls can be stated. Python floats are idealised as reals (rounding is
  not modelled); a float division by zero raises, as in Python.
\<close>

subsection \<open>Python values and errors\<close>

datatype device = Cpu nat | Gpu nat

datatype error =
    IndexError
  | ZeroDivisionError
  | TypeError
  | UnboundLocalError string
  | MXNetError string

text \<open>\<^verbatim>\<open>xs[i]\<close> for a literal index \<open>i \<ge> 0\<close>: IndexError out of range.\<close>

definition py_index :: "'a list \<Rightarrow> nat \<Rightarrow> error + 'a" where
  "py_index xs i = (if i < length xs then Inr (xs ! i) else Inl IndexError)"

text \<open>\<^verbatim>\<open>a / b\<close> on floats.\<close>

definition py_div :: "real \<Rightarrow> real \<Rightarrow> error + real" where
  "py_div a b = (if b = 0 then Inl ZeroDivisionError else Inr (a / b))"

text \<open>Reading a local variable of a function: unbound until first assigned.\<close>

definition get_local :: "string \<Rightarrow> 'a option \<Rightarrow> error + 'a" where
  "get_local name v = (case v of None \<Rightarrow> Inl (UnboundLocalError name) | Some x \<Rightarrow> Inr x)"

subsection \<open>The network declared by the notebook\<close>

text \<open>
  \<^verbatim>\<open>net = nn.Sequential(); net.add(nn.Conv2D(...), ...)\<close>. A layer is recorded with the
  arguments its constructor is given; an argument that is left out is \<open>None\<close>.
\<close>

datatype layer =
    Conv2D (channels: nat) (kernel_size: nat) (padding: "nat option") (activation: "string option")
  | AvgPool2D (pool_size: nat) (strides: nat)
  | Dense (units: nat) (dense_activation: "string option")

definition net :: "layer list" where
  "net =
    [Conv2D 6 5 (Some 2) (Some ''sigmoid''),
     AvgPool2D 2 2,
     Conv2D 16 5 None (Some ''sigmoid''),
     AvgPool2D 2 2,
     Dense 120 (Some ''sigmoid''),
     Dense 84 (Some ''sigmoid''),
     Dense 10 None]"

datatype layer_kind = Convolution | AveragePooling | FullyConnected

fun kind_of :: "layer \<Rightarrow> layer_kind" where
  "kind_of (Conv2D c k p a) = Convolution"
| "kind_of (AvgPool2D w s) = AveragePooling"
| "kind_of (Dense n a) = FullyConnected"

text \<open>
  The layer forms the specification lists: a convolution with kernel size 5, an output
  channel count and an activation; an average pooling with window 2 and stride 2; a
  dense layer with an output width and an optional activation.
\<close>

fun spec_layer :: "layer \<Rightarrow> bool" where
  "spec_layer (Conv2D c k p a) = (k = 5 \<and> a \<noteq> None)"
| "spec_layer (AvgPool2D w s) = (w = 2 \<and> s = 2)"
| "spec_layer (Dense n a) = True"

subsection \<open>The d2l helpers\<close>

text \<open>
  Modelled from the spec: \<^verbatim>\<open>d2l.Accumulator\<close> is not among the sources. The spec
  describes it as mutable running sums, updated once per batch; \<^verbatim>\<open>Accumulator(n)\<close>
  starts \<open>n\<close> sums at zero, \<^verbatim>\<open>add\<close> adds one number to each, and \<^verbatim>\<open>metric[i]\<close> reads the
  \<open>i\<close>-th sum of the list.
\<close>

definition Accumulator :: "nat \<Rightarrow> real list" where
  "Accumulator n = replicate n 0"

definition acc_add :: "real list \<Rightarrow> real list \<Rightarrow> real list" where
  "acc_add data args = map (\<lambda>(a, b). a + b) (zip data args)"

text \<open>
  Modelled from the spec: \<^verbatim>\<open>d2l.Timer\<close> is not among the sources (the spec: a timer).
  \<^verbatim>\<open>start\<close> notes the clock, \<^verbatim>\<open>stop\<close> appends the time elapsed since the last start to
  the list of measured times, \<^verbatim>\<open>sum\<close> adds the measured times up. The constructor
  starts the timer.
\<close>

record timer =
  start_time :: real
  times :: "real list"

definition timer_start :: "timer \<Rightarrow> real \<Rightarrow> timer" where
  "timer_start t now = t\<lparr>start_time := now\<rparr>"

definition timer_stop :: "timer \<Rightarrow> real \<Rightarrow> timer" where
  "timer_stop t now = t\<lparr>times := times t @ [now - start_time t]\<rparr>"

definition timer_sum :: "timer \<Rightarrow> real" where
  "timer_sum t = sum_list (times t)"

subsection \<open>The framework, and the trace of the calls made to it\<close>

datatype initializer = Xavier

datatype line =
    ShapeLine string "nat list"
  | SummaryLine real real real
  | ThroughputLine real device

text \<open>
  One event per call, carrying the arguments and then the result. \<open>'t\<close> is the type of
  ndarrays, \<open>'p\<close> the type of parameters. \<open>Raised e\<close> marks a framework call that raised.
\<close>

datatype ('t, 'p) event =
    RandomUniform "nat list" 't
  | Initialize "bool option" "device option" "initializer option"
  | LayerCall nat layer 't 't
  | NewLoss string
  | CollectParams "'p list"
  | NewTrainer "'p list" string real
  | NewAnimator string int "string list"
  | Clock real
  | ListCtx 'p "device list"
  | AsInContext 't device 't
  | RecordEnter
  | RecordExit
  | NetCall 't 't
  | Loss 't 't 't
  | Backward 't
  | Step nat
  | SumOf 't real
  | Accuracy 't 't real
  | AnimatorAdd real "real option" "real option" "real option"
  | Print line
  | Raised error

type_synonym ('w, 'a) fwop = "'w \<Rightarrow> (error + 'a) \<times> 'w"

record ('w, 't, 'p) framework =
  shape :: "'t \<Rightarrow> nat list"
  layer_name :: "nat \<Rightarrow> layer \<Rightarrow> string"
  random_uniform :: "nat list \<Rightarrow> ('w, 't) fwop"
  initialize :: "bool option \<Rightarrow> device option \<Rightarrow> initializer option \<Rightarrow> ('w, unit) fwop"
  layer_call :: "nat \<Rightarrow> layer \<Rightarrow> 't \<Rightarrow> ('w, 't) fwop"
  new_loss :: "string \<Rightarrow> ('w, unit) fwop"
  collect_params :: "('w, 'p list) fwop"
  new_trainer :: "'p list \<Rightarrow> string \<Rightarrow> real \<Rightarrow> ('w, unit) fwop"
  new_animator :: "string \<Rightarrow> int \<Rightarrow> string list \<Rightarrow> ('w, unit) fwop"
  time_now :: "('w, real) fwop"
  list_ctx :: "'p \<Rightarrow> ('w, device list) fwop"
  as_in_context :: "'t \<Rightarrow> device \<Rightarrow> ('w, 't) fwop"
  record_enter :: "('w, unit) fwop"
  record_exit :: "('w, unit) fwop"
  net_call :: "'t \<Rightarrow> ('w, 't) fwop"
  loss_call :: "'t \<Rightarrow> 't \<Rightarrow> ('w, 't) fwop"
  backward :: "'t \<Rightarrow> ('w, unit) fwop"
  trainer_step :: "nat \<Rightarrow> ('w, unit) fwop"
  sum_of :: "'t \<Rightarrow> ('w, real) fwop"
  accuracy :: "'t \<Rightarrow> 't \<Rightarrow> ('w, real) fwop"
  animator_add :: "real \<Rightarrow> real option \<Rightarrow> real option \<Rightarrow> real option \<Rightarrow> ('w, unit) fwop"

text \<open>\<^verbatim>\<open>y.size\<close>: the number of elements, the product of the shape.\<close>

definition nd_size :: "('w, 't, 'p) framework \<Rightarrow> 't \<Rightarrow> nat" where
  "nd_size fw t = prod_list (shape fw t)"

record ('w, 't, 'p) state =
  world :: 'w
  trace :: "('t, 'p) event list"

type_synonym ('w, 't, 'p, 'a) prog = "('w, 't, 'p) state \<Rightarrow> (error + 'a) \<times> ('w, 't, 'p) state"

text \<open>
  A raised error ends the computation: nothing in the notebook catches one. The state
  reached when it was raised stays.
\<close>

definition return_se :: "'a \<Rightarrow> ('w, 't, 'p, 'a) prog" where
  "return_se a = (\<lambda>s. (Inr a, s))"

definition bind_se :: "('w, 't, 'p, 'a) prog \<Rightarrow> ('a \<Rightarrow> ('w, 't, 'p, 'b) prog) \<Rightarrow> ('w, 't, 'p, 'b) prog" where
  "bind_se m f = (\<lambda>s. case m s of (Inl e, s') \<Rightarrow> (Inl e, s') | (Inr a, s') \<Rightarrow> f a s')"

text \<open>An expression of the notebook's own that may raise (an index, a division, a name).\<close>

definition lift_se :: "error + 'a \<Rightarrow> ('w, 't, 'p, 'a) prog" where
  "lift_se x = (\<lambda>s. (x, s))"

text \<open>A framework call: it runs on the framework state, and the trace gets its event.\<close>

definition call :: "('w, 'a) fwop \<Rightarrow> ('a \<Rightarrow> ('t, 'p) event) \<Rightarrow> ('w, 't, 'p, 'a) prog" where
  "call op ev = (\<lambda>s. case op (world s) of
      (Inl e, w') \<Rightarrow> (Inl e, s\<lparr>world := w', trace := trace s @ [Raised e]\<rparr>)
    | (Inr r, w') \<Rightarrow> (Inr r, s\<lparr>world := w', trace := trace s @ [ev r]\<rparr>))"

text \<open>\<^verbatim>\<open>print\<close>.\<close>

definition print_line :: "line \<Rightarrow> ('w, 't, 'p, unit) prog" where
  "print_line l = (\<lambda>s. (Inr (), s\<lparr>trace := trace s @ [Print l]\<rparr>))"

subsection \<open>The shape-inspection loop\<close>

text \<open>
  \<^verbatim>\<open>for layer in net: X = layer(X); print(layer.name, 'output shape:\t', X.shape)\<close>.
  The layers are visited with their position in the container.
\<close>

fun shape_loop :: "('w, 't, 'p) framework \<Rightarrow> (nat \<times> layer) list \<Rightarrow> 't \<Rightarrow> ('w, 't, 'p, 't) prog" where
  "shape_loop fw [] X = return_se X"
| "shape_loop fw ((i, l) # ls) X =
     bind_se (call (layer_call fw i l X) (LayerCall i l X)) (\<lambda>X'.
     bind_se (print_line (ShapeLine (layer_name fw i l) (shape fw X'))) (\<lambda>_.
     shape_loop fw ls X'))"

text \<open>
  \<^verbatim>\<open>X = np.random.uniform(size=(1, 1, 28, 28)); net.initialize()\<close>, then the loop.
\<close>

definition shape_inspection :: "('w, 't, 'p) framework \<Rightarrow> layer list \<Rightarrow> ('w, 't, 'p, 't) prog" where
  "shape_inspection fw layers =
     bind_se (call (random_uniform fw [1, 1, 28, 28]) (RandomUniform [1, 1, 28, 28])) (\<lambda>X.
     bind_se (call (initialize fw None None None) (\<lambda>_. Initialize None None None)) (\<lambda>_.
     shape_loop fw (zip [0..<length layers] layers) X))"

subsection \<open>evaluate_accuracy_gpu\<close>

text \<open>
  \<^verbatim>\<open>if not ctx: ctx = list(net.collect_params().values())[0].list_ctx()[0]\<close>
\<close>

definition resolve_ctx :: "('w, 't, 'p) framework \<Rightarrow> device option \<Rightarrow> ('w, 't, 'p, device) prog" where
  "resolve_ctx fw ctx =
     (case ctx of
        Some c \<Rightarrow> return_se c
      | None \<Rightarrow>
          bind_se (call (collect_params fw) CollectParams) (\<lambda>ps.
          bind_se (lift_se (py_index ps 0)) (\<lambda>p.
          bind_se (call (list_ctx fw p) (ListCtx p)) (\<lambda>ds.
          lift_se (py_index ds 0)))))"

text \<open>
  The body of \<^verbatim>\<open>for X, y in data_iter\<close>:
  \<^verbatim>\<open>X, y = X.as_in_context(ctx), y.as_in_context(ctx)\<close>, then
  \<^verbatim>\<open>metric.add(d2l.accuracy(net(X), y), y.size)\<close>.
\<close>

definition eval_batch ::
  "('w, 't, 'p) framework \<Rightarrow> device \<Rightarrow> real list \<Rightarrow> 't \<times> 't \<Rightarrow> ('w, 't, 'p, real list) prog" where
  "eval_batch fw ctx metric b =
     (case b of (X, y) \<Rightarrow>
     bind_se (call (as_in_context fw X ctx) (AsInContext X ctx)) (\<lambda>X'.
     bind_se (call (as_in_context fw y ctx) (AsInContext y ctx)) (\<lambda>y'.
     bind_se (call (net_call fw X') (NetCall X')) (\<lambda>y_hat.
     bind_se (call (accuracy fw y_hat y') (Accuracy y_hat y')) (\<lambda>c.
     return_se (acc_add metric [c, real (nd_size fw y')]))))))"

fun eval_loop ::
  "('w, 't, 'p) framework \<Rightarrow> device \<Rightarrow> ('t \<times> 't) list \<Rightarrow> real list \<Rightarrow> ('w, 't, 'p, real list) prog" where
  "eval_loop fw ctx [] metric = return_se metric"
| "eval_loop fw ctx (b # bs) metric =
     bind_se (eval_batch fw ctx metric b) (\<lambda>metric'. eval_loop fw ctx bs metric')"

text \<open>
  The data iterator is the list of the batches one iteration over it yields; \<open>None\<close> for
  \<open>ctx\<close> is the argument left out.
\<close>

definition evaluate_accuracy_gpu ::
  "('w, 't, 'p) framework \<Rightarrow> ('t \<times> 't) list \<Rightarrow> device option \<Rightarrow> ('w, 't, 'p, real) prog" where
  "evaluate_accuracy_gpu fw data_iter ctx =
     bind_se (resolve_ctx fw ctx) (\<lambda>ctx'.
     bind_se (eval_loop fw ctx' data_iter (Accumulator 2)) (\<lambda>metric.
     bind_se (lift_se (py_index metric 0)) (\<lambda>m0.
     bind_se (lift_se (py_index metric 1)) (\<lambda>m1.
     lift_se (py_div m0 m1)))))"

subsection \<open>train_ch5\<close>

text \<open>
  An iterable that is iterated once per epoch: \<open>batches_at k\<close> are the batches its
  \<open>k\<close>-th iteration yields (a data loader that shuffles yields other batches every
  time, a generator yields nothing the second time), \<open>len_of\<close> is what \<^verbatim>\<open>len\<close> gives,
  \<open>None\<close> for an iterable without a length.
\<close>

record 't data_iter =
  batches_at :: "nat \<Rightarrow> ('t \<times> 't) list"
  len_of :: "nat option"

definition py_len :: "'t data_iter \<Rightarrow> error + nat" where
  "py_len it = (case len_of it of None \<Rightarrow> Inl TypeError | Some n \<Rightarrow> Inr n)"

text \<open>The local variables of \<^verbatim>\<open>train_ch5\<close> that a later statement reads.\<close>

record locals =
  the_timer :: timer
  metric :: "real list option"
  train_loss :: "real option"
  train_acc :: "real option"
  test_acc :: "real option"

text \<open>
  The body of \<^verbatim>\<open>for i, (X, y) in enumerate(train_iter)\<close>, lines 285 to 298 of the
  notebook.
\<close>

definition train_batch ::
  "('w, 't, 'p) framework \<Rightarrow> device \<Rightarrow> 't data_iter \<Rightarrow> nat \<Rightarrow> nat \<Rightarrow> 't \<times> 't \<Rightarrow> locals
     \<Rightarrow> ('w, 't, 'p, locals) prog" where
  "train_batch fw ctx train_iter epoch i b L =
     (case b of (X, y) \<Rightarrow>
     bind_se (call (time_now fw) Clock) (\<lambda>t0.
     bind_se (call (as_in_context fw X ctx) (AsInContext X ctx)) (\<lambda>X'.
     bind_se (call (as_in_context fw y ctx) (AsInContext y ctx)) (\<lambda>y'.
     bind_se (call (record_enter fw) (\<lambda>_. RecordEnter)) (\<lambda>_.
     bind_se (call (net_call fw X') (NetCall X')) (\<lambda>y_hat.
     bind_se (call (loss_call fw y_hat y') (Loss y_hat y')) (\<lambda>l.
     bind_se (call (record_exit fw) (\<lambda>_. RecordExit)) (\<lambda>_.
     bind_se (call (backward fw l) (\<lambda>_. Backward l)) (\<lambda>_.
     bind_se (lift_se (py_index (shape fw X') 0)) (\<lambda>n.
     bind_se (call (trainer_step fw n) (\<lambda>_. Step n)) (\<lambda>_.
     bind_se (lift_se (get_local ''metric'' (metric L))) (\<lambda>m.
     bind_se (call (sum_of fw l) (SumOf l)) (\<lambda>lsum.
     bind_se (call (accuracy fw y_hat y') (Accuracy y_hat y')) (\<lambda>c.
     bind_se (lift_se (py_index (shape fw X') 0)) (\<lambda>n'.
     bind_se (call (time_now fw) Clock) (\<lambda>t1.
     bind_se (return_se (acc_add m [lsum, c, real n'])) (\<lambda>m'.
     bind_se (lift_se (py_index m' 0)) (\<lambda>m0.
     bind_se (lift_se (py_index m' 2)) (\<lambda>m2.
     bind_se (lift_se (py_div m0 m2)) (\<lambda>tl.
     bind_se (lift_se (py_index m' 1)) (\<lambda>m1.
     bind_se (lift_se (py_index m' 2)) (\<lambda>m2'.
     bind_se (lift_se (py_div m1 m2')) (\<lambda>ta.
     bind_se
       (if (i + 1) mod 50 = 0 then
          bind_se (lift_se (py_len train_iter)) (\<lambda>len.
          bind_se (lift_se (py_div (real i) (real len))) (\<lambda>frac.
          call (animator_add fw (real epoch + frac) (Some tl) (Some ta) None)
               (\<lambda>_. AnimatorAdd (real epoch + frac) (Some tl) (Some ta) None)))
        else return_se ()) (\<lambda>_.
     return_se (L\<lparr>the_timer := timer_stop (timer_start (the_timer L) t0) t1,
                  metric := Some m', train_loss := Some tl, train_acc := Some ta\<rparr>)
     ))))))))))))))))))))))))"

fun train_batches ::
  "('w, 't, 'p) framework \<Rightarrow> device \<Rightarrow> 't data_iter \<Rightarrow> nat \<Rightarrow> nat \<Rightarrow> ('t \<times> 't) list \<Rightarrow> locals
     \<Rightarrow> ('w, 't, 'p, locals) prog" where
  "train_batches fw ctx train_iter epoch i [] L = return_se L"
| "train_batches fw ctx train_iter epoch i (b # bs) L =
     bind_se (train_batch fw ctx train_iter epoch i b L) (\<lambda>L'.
     train_batches fw ctx train_iter epoch (Suc i) bs L')"

text \<open>
  The body of \<^verbatim>\<open>for epoch in range(num_epochs)\<close>: a new accumulator, the batches, then
  \<^verbatim>\<open>test_acc = evaluate_accuracy_gpu(net, test_iter)\<close> and
  \<^verbatim>\<open>animator.add(epoch+1, (None, None, test_acc))\<close>.
\<close>

definition train_epoch ::
  "('w, 't, 'p) framework \<Rightarrow> device \<Rightarrow> 't data_iter \<Rightarrow> 't data_iter \<Rightarrow> nat \<Rightarrow> locals
     \<Rightarrow> ('w, 't, 'p, locals) prog" where
  "train_epoch fw ctx train_iter test_iter epoch L =
     bind_se (return_se (L\<lparr>metric := Some (Accumulator 3)\<rparr>)) (\<lambda>L1.
     bind_se (train_batches fw ctx train_iter epoch 0 (batches_at train_iter epoch) L1) (\<lambda>L2.
     bind_se (evaluate_accuracy_gpu fw (batches_at test_iter epoch) None) (\<lambda>a.
     bind_se (call (animator_add fw (real (epoch + 1)) None None (Some a))
                   (\<lambda>_. AnimatorAdd (real (epoch + 1)) None None (Some a))) (\<lambda>_.
     return_se (L2\<lparr>test_acc := Some a\<rparr>)))))"

fun train_epochs ::
  "('w, 't, 'p) framework \<Rightarrow> device \<Rightarrow> 't data_iter \<Rightarrow> 't data_iter \<Rightarrow> nat list \<Rightarrow> locals
     \<Rightarrow> ('w, 't, 'p, locals) prog" where
  "train_epochs fw ctx train_iter test_iter [] L = return_se L"
| "train_epochs fw ctx train_iter test_iter (epoch # es) L =
     bind_se (train_epoch fw ctx train_iter test_iter epoch L) (\<lambda>L'.
     train_epochs fw ctx train_iter test_iter es L')"

text \<open>
  The two final \<^verbatim>\<open>print\<close> calls. The tuple of the first is evaluated left to right,
  \<^verbatim>\<open>metric[2]*num_epochs/timer.sum()\<close> is a float division.
\<close>

definition print_summary :: "locals \<Rightarrow> ('w, 't, 'p, unit) prog" where
  "print_summary L =
     bind_se (lift_se (get_local ''train_loss'' (train_loss L))) (\<lambda>tl.
     bind_se (lift_se (get_local ''train_acc'' (train_acc L))) (\<lambda>ta.
     bind_se (lift_se (get_local ''test_acc'' (test_acc L))) (\<lambda>te.
     print_line (SummaryLine tl ta te))))"

definition print_throughput :: "int \<Rightarrow> device \<Rightarrow> locals \<Rightarrow> ('w, 't, 'p, unit) prog" where
  "print_throughput num_epochs ctx L =
     bind_se (lift_se (get_local ''metric'' (metric L))) (\<lambda>m.
     bind_se (lift_se (py_index m 2)) (\<lambda>m2.
     bind_se (lift_se (py_div (m2 * real_of_int num_epochs) (timer_sum (the_timer L)))) (\<lambda>r.
     print_line (ThroughputLine r ctx))))"

text \<open>
  The local variables when the loop over the epochs starts: \<^verbatim>\<open>timer = d2l.Timer()\<close> has
  been made at clock \<open>t\<close>, no other name is assigned yet.
\<close>

definition initial_locals :: "real \<Rightarrow> locals" where
  "initial_locals t =
     \<lparr>the_timer = \<lparr>start_time = t, times = []\<rparr>, metric = None, train_loss = None,
      train_acc = None, test_acc = None\<rparr>"

text \<open>
  Lines 275 to 300 of the notebook: the network is initialised, the loss, the trainer,
  the animator and the timer are made, and the epochs run. \<^verbatim>\<open>range(num_epochs)\<close> is empty
  for a count below one. The network is part of the framework state.
\<close>

definition train_loop ::
  "('w, 't, 'p) framework \<Rightarrow> 't data_iter \<Rightarrow> 't data_iter \<Rightarrow> int \<Rightarrow> real \<Rightarrow> device
     \<Rightarrow> ('w, 't, 'p, locals) prog" where
  "train_loop fw train_iter test_iter num_epochs lr ctx =
     bind_se (call (initialize fw (Some True) (Some ctx) (Some Xavier))
                   (\<lambda>_. Initialize (Some True) (Some ctx) (Some Xavier))) (\<lambda>_.
     bind_se (call (new_loss fw ''SoftmaxCrossEntropyLoss'') (\<lambda>_. NewLoss ''SoftmaxCrossEntropyLoss'')) (\<lambda>_.
     bind_se (call (collect_params fw) CollectParams) (\<lambda>ps.
     bind_se (call (new_trainer fw ps ''sgd'' lr) (\<lambda>_. NewTrainer ps ''sgd'' lr)) (\<lambda>_.
     bind_se (call (new_animator fw ''epoch'' num_epochs [''train loss'', ''train acc'', ''test acc''])
                   (\<lambda>_. NewAnimator ''epoch'' num_epochs [''train loss'', ''train acc'', ''test acc''])) (\<lambda>_.
     bind_se (call (time_now fw) Clock) (\<lambda>t.
     train_epochs fw ctx train_iter test_iter [0..<nat num_epochs] (initial_locals t)))))))"

text \<open>
  \<^verbatim>\<open>train_ch5(net, train_iter, test_iter, num_epochs, lr, ctx)\<close>: the loop, then the two
  final prints.
\<close>

definition train_ch5 ::
  "('w, 't, 'p) framework \<Rightarrow> 't data_iter \<Rightarrow> 't data_iter \<Rightarrow> int \<Rightarrow> real \<Rightarrow> device
     \<Rightarrow> ('w, 't, 'p, unit) prog" where
  "train_ch5 fw train_iter test_iter num_epochs lr ctx =
     bind_se (train_loop fw train_iter test_iter num_epochs lr ctx) (\<lambda>L.
     bind_se (print_summary L) (\<lambda>_.
     print_throughput num_epochs ctx L))"

subsection \<open>Runs: the results the framework gave, and the trace they make\<close>

text \<open>
  What one pass of the evaluation loop got back from the framework: the batch and the
  labels on the device, the network's output, and the number of correct predictions.
\<close>

datatype 't eval_run = EvalRun (ev_X: 't) (ev_y: 't) (ev_yhat: 't) (ev_correct: real)

text \<open>The calls of one pass, in the order the loop body makes them.\<close>

definition eval_events :: "device \<Rightarrow> 't \<times> 't \<Rightarrow> 't eval_run \<Rightarrow> ('t, 'p) event list" where
  "eval_events d b r =
     [AsInContext (fst b) d (ev_X r), AsInContext (snd b) d (ev_y r),
      NetCall (ev_X r) (ev_yhat r), Accuracy (ev_yhat r) (ev_y r) (ev_correct r)]"

definition eval_correct :: "'t eval_run list \<Rightarrow> real" where
  "eval_correct rs = sum_list (map ev_correct rs)"

definition eval_examples :: "('w, 't, 'p) framework \<Rightarrow> 't eval_run list \<Rightarrow> nat" where
  "eval_examples fw rs = sum_list (map (\<lambda>r. nd_size fw (ev_y r)) rs)"

text \<open>
  The device lookup: no call when \<open>ctx\<close> is given, else the parameters \<open>ps\<close> are
  collected and the first one is asked for its devices \<open>ds\<close>.
\<close>

definition resolve_events :: "device option \<Rightarrow> 'p list \<Rightarrow> device list \<Rightarrow> ('t, 'p) event list" where
  "resolve_events ctx ps ds =
     (case ctx of Some c \<Rightarrow> [] | None \<Rightarrow> [CollectParams ps, ListCtx (hd ps) ds])"

definition resolved :: "device option \<Rightarrow> device list \<Rightarrow> device" where
  "resolved ctx ds = (case ctx of Some c \<Rightarrow> c | None \<Rightarrow> hd ds)"

text \<open>The number of examples a data iterator yields: the sizes of its label vectors.\<close>

definition examples :: "('w, 't, 'p) framework \<Rightarrow> ('t \<times> 't) list \<Rightarrow> nat" where
  "examples fw bs = sum_list (map (\<lambda>b. nd_size fw (snd b)) bs)"

text \<open>
  A framework whose calls, as far as the evaluation makes them, all answer: a parameter
  lists at least one device, and moving an array keeps its shape.
\<close>

definition framework_answers :: "('w, 't, 'p) framework \<Rightarrow> bool" where
  "framework_answers fw \<longleftrightarrow>
     (\<forall>w. \<exists>ps w'. collect_params fw w = (Inr ps, w')) \<and>
     (\<forall>p w. \<exists>ds w'. list_ctx fw p w = (Inr ds, w') \<and> ds \<noteq> []) \<and>
     (\<forall>t d w. \<exists>t' w'. as_in_context fw t d w = (Inr t', w') \<and> shape fw t' = shape fw t) \<and>
     (\<forall>t w. \<exists>r w'. net_call fw t w = (Inr r, w')) \<and>
     (\<forall>a b w. \<exists>c w'. accuracy fw a b w = (Inr c, w'))"

subsection \<open>Errors on their way to the caller\<close>




text \<open>
  What one pass of the training loop got back from the framework: the clock at
  \<^verbatim>\<open>timer.start()\<close>, the batch and the labels on the device, the network's output, the
  loss, its sum, the number of correct predictions, and the clock at \<^verbatim>\<open>timer.stop()\<close>.
\<close>

datatype 't batch_run =
  BatchRun (br_t0: real) (br_X: 't) (br_y: 't) (br_yhat: 't) (br_l: 't)
           (br_lsum: real) (br_correct: real) (br_t1: real)

text \<open>\<^verbatim>\<open>X.shape[0]\<close> of the batch on the device: the batch size.\<close>

definition br_n :: "('w, 't, 'p) framework \<Rightarrow> 't batch_run \<Rightarrow> nat" where
  "br_n fw r = shape fw (br_X r) ! 0"

text \<open>The calls of one pass up to \<^verbatim>\<open>timer.stop()\<close>, in the order the loop body makes them.\<close>

definition core_events ::
  "('w, 't, 'p) framework \<Rightarrow> device \<Rightarrow> 't \<times> 't \<Rightarrow> 't batch_run \<Rightarrow> ('t, 'p) event list" where
  "core_events fw ctx b r =
     [Clock (br_t0 r),
      AsInContext (fst b) ctx (br_X r), AsInContext (snd b) ctx (br_y r),
      RecordEnter, NetCall (br_X r) (br_yhat r), Loss (br_yhat r) (br_y r) (br_l r), RecordExit,
      Backward (br_l r),
      Step (br_n fw r),
      SumOf (br_l r) (br_lsum r), Accuracy (br_yhat r) (br_y r) (br_correct r),
      Clock (br_t1 r)]"

text \<open>The accumulator after \<^verbatim>\<open>metric.add\<close> of the pass.\<close>

definition batch_metric :: "('w, 't, 'p) framework \<Rightarrow> real list \<Rightarrow> 't batch_run \<Rightarrow> real list" where
  "batch_metric fw m r = acc_add m [br_lsum r, br_correct r, real (br_n fw r)]"

text \<open>Every fiftieth pass plots the running loss and accuracy.\<close>

definition plot_events :: "'t data_iter \<Rightarrow> nat \<Rightarrow> nat \<Rightarrow> real list \<Rightarrow> ('t, 'p) event list" where
  "plot_events ti epoch i m =
     (if (i + 1) mod 50 = 0
      then [AnimatorAdd (real epoch + real i / real (case len_of ti of None \<Rightarrow> 0 | Some n \<Rightarrow> n))
              (Some (m ! 0 / m ! 2)) (Some (m ! 1 / m ! 2)) None]
      else [])"

definition metric_of :: "locals \<Rightarrow> real list" where
  "metric_of L = (case metric L of None \<Rightarrow> [] | Some m \<Rightarrow> m)"

text \<open>The local variables after the pass.\<close>

definition batch_locals :: "('w, 't, 'p) framework \<Rightarrow> locals \<Rightarrow> 't batch_run \<Rightarrow> locals" where
  "batch_locals fw L r =
     L\<lparr>the_timer := timer_stop (timer_start (the_timer L) (br_t0 r)) (br_t1 r),
       metric := Some (batch_metric fw (metric_of L) r),
       train_loss := Some (batch_metric fw (metric_of L) r ! 0 / batch_metric fw (metric_of L) r ! 2),
       train_acc := Some (batch_metric fw (metric_of L) r ! 1 / batch_metric fw (metric_of L) r ! 2)\<rparr>"

text \<open>The calls of the passes over the batches of one epoch, the accumulator threaded.\<close>

fun batches_events ::
  "('w, 't, 'p) framework \<Rightarrow> device \<Rightarrow> 't data_iter \<Rightarrow> nat \<Rightarrow> nat \<Rightarrow> real list
     \<Rightarrow> ('t \<times> 't) list \<Rightarrow> 't batch_run list \<Rightarrow> ('t, 'p) event list" where
  "batches_events fw ctx ti epoch i m (b # bs) (r # rs) =
     core_events fw ctx b r @ plot_events ti epoch i (batch_metric fw m r)
       @ batches_events fw ctx ti epoch (Suc i) (batch_metric fw m r) bs rs"
| "batches_events fw ctx ti epoch i m bs rs = []"

text \<open>
  What one epoch got back: the runs of its training passes, then for the evaluation the
  parameters collected, the devices of the first one, and the runs of its passes.
\<close>

datatype ('t, 'p) epoch_run =
  EpochRun (ep_batches: "'t batch_run list") (ep_params: "'p list") (ep_ctxs: "device list")
           (ep_evals: "'t eval_run list")

definition test_value :: "('w, 't, 'p) framework \<Rightarrow> ('t, 'p) epoch_run \<Rightarrow> real" where
  "test_value fw R = eval_correct (ep_evals R) / real (eval_examples fw (ep_evals R))"

text \<open>The calls of one epoch: the training passes, the evaluation, the test accuracy plotted.\<close>

definition epoch_events ::
  "('w, 't, 'p) framework \<Rightarrow> device \<Rightarrow> 't data_iter \<Rightarrow> 't data_iter \<Rightarrow> nat \<Rightarrow> ('t, 'p) epoch_run
     \<Rightarrow> ('t, 'p) event list" where
  "epoch_events fw ctx ti te epoch R =
     batches_events fw ctx ti epoch 0 (Accumulator 3) (batches_at ti epoch) (ep_batches R)
     @ resolve_events None (ep_params R) (ep_ctxs R)
     @ concat (map2 (eval_events (resolved None (ep_ctxs R))) (batches_at te epoch) (ep_evals R))
     @ [AnimatorAdd (real (epoch + 1)) None None (Some (test_value fw R))]"

definition epoch_locals :: "('w, 't, 'p) framework \<Rightarrow> locals \<Rightarrow> ('t, 'p) epoch_run \<Rightarrow> locals" where
  "epoch_locals fw L R =
     (foldl (batch_locals fw) (L\<lparr>metric := Some (Accumulator 3)\<rparr>) (ep_batches R))
       \<lparr>test_acc := Some (test_value fw R)\<rparr>"

text \<open>
  An epoch run fits the iterators: one training pass per training batch, each on a batch with
  a first dimension, one evaluation pass per test batch, and an evaluation that found a
  parameter, a device and an example.
\<close>

definition epoch_ok ::
  "('w, 't, 'p) framework \<Rightarrow> 't data_iter \<Rightarrow> 't data_iter \<Rightarrow> nat \<Rightarrow> ('t, 'p) epoch_run \<Rightarrow> bool" where
  "epoch_ok fw ti te epoch R \<longleftrightarrow>
     length (ep_batches R) = length (batches_at ti epoch)
     \<and> list_all (\<lambda>r. shape fw (br_X r) \<noteq> []) (ep_batches R)
     \<and> length (ep_evals R) = length (batches_at te epoch)
     \<and> ep_params R \<noteq> [] \<and> ep_ctxs R \<noteq> []
     \<and> eval_examples fw (ep_evals R) \<noteq> 0"

text \<open>The calls before the first epoch; \<open>t\<close> is the clock when the timer is made.\<close>

definition setup_events :: "device \<Rightarrow> real \<Rightarrow> int \<Rightarrow> 'p list \<Rightarrow> real \<Rightarrow> ('t, 'p) event list" where
  "setup_events ctx lr num_epochs ps t =
     [Initialize (Some True) (Some ctx) (Some Xavier),
      NewLoss ''SoftmaxCrossEntropyLoss'',
      CollectParams ps, NewTrainer ps ''sgd'' lr,
      NewAnimator ''epoch'' num_epochs [''train loss'', ''train acc'', ''test acc''],
      Clock t]"

subsection \<open>Views of a trace\<close>

text \<open>A view of a trace keeps, in order, what each event shows of one kind.\<close>

definition project :: "('e \<Rightarrow> 'a list) \<Rightarrow> 'e list \<Rightarrow> 'a list" where
  "project f tr = concat (map f tr)"

text \<open>The optimizer steps, with the batch size each is given.\<close>

fun step_of :: "('t, 'p) event \<Rightarrow> nat list" where
  "step_of (Step n) = [n]"
| "step_of _ = []"

text \<open>
  The marks of an epoch: an optimizer step, the start of an evaluation (its device
  lookup), and a test accuracy recorded for plotting at a position.
\<close>

datatype mark = TrainStep | Evaluation | TestRecord real

fun mark_of :: "('t, 'p) event \<Rightarrow> mark list" where
  "mark_of (Step n) = [TrainStep]"
| "mark_of (ListCtx p ds) = [Evaluation]"
| "mark_of (AnimatorAdd x l a (Some v)) = [TestRecord x]"
| "mark_of _ = []"

text \<open>The printed lines.\<close>

fun line_of :: "('t, 'p) event \<Rightarrow> line list" where
  "line_of (Print l) = [l]"
| "line_of _ = []"

text \<open>The events a run has added to the trace.\<close>

definition new_events :: "('w, 't, 'p) state \<Rightarrow> ('w, 't, 'p) state \<Rightarrow> ('t, 'p) event list" where
  "new_events s s' = drop (length (trace s)) (trace s')"

text \<open>The clock readings.\<close>

fun clock_of :: "('t, 'p) event \<Rightarrow> real list" where
  "clock_of (Clock t) = [t]"
| "clock_of _ = []"

subsection \<open>Sums and rates of an epoch\<close>

text \<open>The three running sums after the passes \<open>rs\<close>: loss, correct predictions, examples.\<close>

definition epoch_sums :: "('w, 't, 'p) framework \<Rightarrow> 't batch_run list \<Rightarrow> real list" where
  "epoch_sums fw rs =
     [sum_list (map br_lsum rs), sum_list (map br_correct rs), real (sum_list (map (br_n fw) rs))]"

text \<open>Loss per example and accuracy per example.\<close>

definition loss_rate :: "('w, 't, 'p) framework \<Rightarrow> 't batch_run list \<Rightarrow> real" where
  "loss_rate fw rs = sum_list (map br_lsum rs) / real (sum_list (map (br_n fw) rs))"

definition acc_rate :: "('w, 't, 'p) framework \<Rightarrow> 't batch_run list \<Rightarrow> real" where
  "acc_rate fw rs = sum_list (map br_correct rs) / real (sum_list (map (br_n fw) rs))"

text \<open>The examples an epoch has processed, and the time the timer has measured.\<close>

definition epoch_examples :: "('w, 't, 'p) framework \<Rightarrow> ('t, 'p) epoch_run \<Rightarrow> nat" where
  "epoch_examples fw R = sum_list (map (br_n fw) (ep_batches R))"

definition total_time :: "('t, 'p) epoch_run list \<Rightarrow> real" where
  "total_time Rs = sum_list (concat (map (\<lambda>R. map (\<lambda>r. br_t1 r - br_t0 r) (ep_batches R)) Rs))"

text \<open>The last epoch that made at least one training pass.\<close>

definition last_trained :: "('t, 'p) epoch_run list \<Rightarrow> ('t, 'p) epoch_run option" where
  "last_trained Rs =
     (if filter (\<lambda>R. ep_batches R \<noteq> []) Rs = [] then None
      else Some (last (filter (\<lambda>R. ep_batches R \<noteq> []) Rs)))"

subsection \<open>A reference framework for concrete runs\<close>

text \<open>
  An ndarray is its shape, the framework state is the clock. Every call answers; a
  layer's output has the shape the layer gives it, half the labels count as correct.
\<close>

fun out_shape :: "layer \<Rightarrow> nat list \<Rightarrow> nat list" where
  "out_shape (Conv2D c k p a) sh =
     [sh ! 0, c, sh ! 2 + 2 * (case p of None \<Rightarrow> 0 | Some q \<Rightarrow> q) + 1 - k,
      sh ! 3 + 2 * (case p of None \<Rightarrow> 0 | Some q \<Rightarrow> q) + 1 - k]"
| "out_shape (AvgPool2D w s) sh = [sh ! 0, sh ! 1, (sh ! 2 - w) div s + 1, (sh ! 3 - w) div s + 1]"
| "out_shape (Dense n a) sh = [sh ! 0, n]"

definition toy :: "(nat, nat list, nat) framework" where
  "toy = \<lparr>shape = (\<lambda>t. t),
          layer_name = (\<lambda>i l. case l of Conv2D c k p a \<Rightarrow> ''conv'' | AvgPool2D w s \<Rightarrow> ''pool''
                                 | Dense n a \<Rightarrow> ''dense''),
          random_uniform = (\<lambda>sh w. (Inr sh, w)),
          initialize = (\<lambda>f c i w. (Inr (), w)),
          layer_call = (\<lambda>i l X w. (Inr (out_shape l X), w)),
          new_loss = (\<lambda>n w. (Inr (), w)),
          collect_params = (\<lambda>w. (Inr [0], w)),
          new_trainer = (\<lambda>ps n lr w. (Inr (), w)),
          new_animator = (\<lambda>x n l w. (Inr (), w)),
          time_now = (\<lambda>w. (Inr (real w), Suc w)),
          list_ctx = (\<lambda>p w. (Inr [Gpu 0], w)),
          as_in_context = (\<lambda>t d w. (Inr t, w)),
          record_enter = (\<lambda>w. (Inr (), w)),
          record_exit = (\<lambda>w. (Inr (), w)),
          net_call = (\<lambda>X w. (Inr [X ! 0, 10], w)),
          loss_call = (\<lambda>yh y w. (Inr y, w)),
          backward = (\<lambda>l w. (Inr (), w)),
          trainer_step = (\<lambda>n w. (Inr (), w)),
          sum_of = (\<lambda>l w. (Inr (real (l ! 0)), w)),
          accuracy = (\<lambda>yh y w. (Inr (real (y ! 0) / 2), w)),
          animator_add = (\<lambda>x a b c w. (Inr (), w))\<rparr>"

definition s0 :: "(nat, nat list, nat) state" where
  "s0 = \<lparr>world = 0, trace = []\<rparr>"

text \<open>A test iterator that yields one batch of four examples every time.\<close>

definition test_data :: "nat list data_iter" where
  "test_data = \<lparr>batches_at = (\<lambda>k. [([4, 1, 28, 28], [4])]), len_of = Some 1\<rparr>"

text \<open>A data iterator of two batches, of four and of two examples.\<close>

definition two_batches :: "(nat list \<times> nat list) list" where
  "two_batches = [([4, 1, 28, 28], [4]), ([2, 1, 28, 28], [2])]"

text \<open>
  A framework that runs out of device memory: the network's forward pass raises once the
  clock has reached two.
\<close>

definition toy_oom :: "(nat, nat list, nat) framework" where
  "toy_oom = toy\<lparr>net_call := (\<lambda>X w. if w < 2 then (Inr [X ! 0, 10], w)
                                      else (Inl (MXNetError ''out of memory''), w))\<rparr>"

text \<open>A training iterator that yields the same two batches of two examples every time.\<close>

definition train_data :: "nat list data_iter" where
  "train_data = \<lparr>batches_at = (\<lambda>k. [([2, 1, 28, 28], [2]), ([2, 1, 28, 28], [2])]), len_of = Some 2\<rparr>"

text \<open>
  A generator: it yields one batch of two examples the first time it is iterated and
  nothing afterwards, and has no length.
\<close>

definition gen_iter :: "nat list data_iter" where
  "gen_iter = \<lparr>batches_at = (\<lambda>k. if k = 0 then [([2, 1, 28, 28], [2])] else []), len_of = None\<rparr>"

text \<open>An iterable that yields nothing, then a batch of two examples, then a batch of one.\<close>

definition uneven_iter :: "nat list data_iter" where
  "uneven_iter = \<lparr>batches_at = (\<lambda>k. if k = 0 then [] else if k = 1 then [([2, 1, 28, 28], [2])]
       else [([1, 1, 28, 28], [1])]), len_of = None\<rparr>"

text \<open>An iterable that never yields a batch.\<close>

definition empty_iter :: "nat list data_iter" where
  "empty_iter = \<lparr>batches_at = (\<lambda>k. []), len_of = Some 0\<rparr>"

text \<open>
  The states the runs below end in. Run A trains one epoch on \<open>train_data\<close>, run B two
  epochs on the generator, run C three epochs on the uneven iterable, run E is the loop on
  the empty iterable; then one epoch alone, and the shape inspection.
\<close>

definition run_A_end :: "(nat, nat list, nat) state" where
  "run_A_end = \<lparr>world = 5,
     trace =
       [Initialize (Some True) (Some (Gpu 0)) (Some Xavier),
        NewLoss ''SoftmaxCrossEntropyLoss'', CollectParams [0],
        NewTrainer [0] ''sgd'' (9 / 10),
        NewAnimator ''epoch'' 1 [''train loss'', ''train acc'', ''test acc''],
        Clock 0,
        Clock 1, AsInContext [2, 1, 28, 28] (Gpu 0) [2, 1, 28, 28],
        AsInContext [2] (Gpu 0) [2], RecordEnter,
        NetCall [2, 1, 28, 28] [2, 10], Loss [2, 10] [2] [2], RecordExit,
        Backward [2], Step 2, SumOf [2] 2, Accuracy [2, 10] [2] 1, Clock 2,
        Clock 3, AsInContext [2, 1, 28, 28] (Gpu 0) [2, 1, 28, 28],
        AsInContext [2] (Gpu 0) [2], RecordEnter,
        NetCall [2, 1, 28, 28] [2, 10], Loss [2, 10] [2] [2], RecordExit,
        Backward [2], Step 2, SumOf [2] 2, Accuracy [2, 10] [2] 1, Clock 4,
        CollectParams [0], ListCtx 0 [Gpu 0],
        AsInContext [4, 1, 28, 28] (Gpu 0) [4, 1, 28, 28],
        AsInContext [4] (Gpu 0) [4], NetCall [4, 1, 28, 28] [4, 10],
        Accuracy [4, 10] [4] 2, AnimatorAdd 1 None None (Some (1 / 2)),
        Print (SummaryLine 1 (1 / 2) (1 / 2)),
        Print (ThroughputLine 2 (Gpu 0))]\<rparr>"

definition run_B_end :: "(nat, nat list, nat) state" where
  "run_B_end = \<lparr>world = 3,
     trace =
       [Initialize (Some True) (Some (Gpu 0)) (Some Xavier),
        NewLoss ''SoftmaxCrossEntropyLoss'', CollectParams [0],
        NewTrainer [0] ''sgd'' (9 / 10),
        NewAnimator ''epoch'' 2 [''train loss'', ''train acc'', ''test acc''],
        Clock 0,
        Clock 1, AsInContext [2, 1, 28, 28] (Gpu 0) [2, 1, 28, 28],
        AsInContext [2] (Gpu 0) [2], RecordEnter,
        NetCall [2, 1, 28, 28] [2, 10], Loss [2, 10] [2] [2], RecordExit,
        Backward [2], Step 2, SumOf [2] 2, Accuracy [2, 10] [2] 1, Clock 2,
        CollectParams [0], ListCtx 0 [Gpu 0],
        AsInContext [4, 1, 28, 28] (Gpu 0) [4, 1, 28, 28],
        AsInContext [4] (Gpu 0) [4], NetCall [4, 1, 28, 28] [4, 10],
        Accuracy [4, 10] [4] 2, AnimatorAdd 1 None None (Some (1 / 2)),
        CollectParams [0], ListCtx 0 [Gpu 0],
        AsInContext [4, 1, 28, 28] (Gpu 0) [4, 1, 28, 28],
        AsInContext [4] (Gpu 0) [4], NetCall [4, 1, 28, 28] [4, 10],
        Accuracy [4, 10] [4] 2, AnimatorAdd 2 None None (Some (1 / 2)),
        Print (SummaryLine 1 (1 / 2) (1 / 2)),
        Print (ThroughputLine 0 (Gpu 0))]\<rparr>"

definition run_C_end :: "(nat, nat list, nat) state" where
  "run_C_end = \<lparr>world = 5,
     trace =
       [Initialize (Some True) (Some (Gpu 0)) (Some Xavier),
        NewLoss ''SoftmaxCrossEntropyLoss'', CollectParams [0],
        NewTrainer [0] ''sgd'' (9 / 10),
        NewAnimator ''epoch'' 3 [''train loss'', ''train acc'', ''test acc''],
        Clock 0,
        CollectParams [0], ListCtx 0 [Gpu 0],
        AsInContext [4, 1, 28, 28] (Gpu 0) [4, 1, 28, 28],
        AsInContext [4] (Gpu 0) [4], NetCall [4, 1, 28, 28] [4, 10],
        Accuracy [4, 10] [4] 2, AnimatorAdd 1 None None (Some (1 / 2)),
        Clock 1, AsInContext [2, 1, 28, 28] (Gpu 0) [2, 1, 28, 28],
        AsInContext [2] (Gpu 0) [2], RecordEnter,
        NetCall [2, 1, 28, 28] [2, 10], Loss [2, 10] [2] [2], RecordExit,
        Backward [2], Step 2, SumOf [2] 2, Accuracy [2, 10] [2] 1, Clock 2,
        CollectParams [0], ListCtx 0 [Gpu 0],
        AsInContext [4, 1, 28, 28] (Gpu 0) [4, 1, 28, 28],
        AsInContext [4] (Gpu 0) [4], NetCall [4, 1, 28, 28] [4, 10],
        Accuracy [4, 10] [4] 2, AnimatorAdd 2 None None (Some (1 / 2)),
        Clock 3, AsInContext [1, 1, 28, 28] (Gpu 0) [1, 1, 28, 28],
        AsInContext [1] (Gpu 0) [1], RecordEnter,
        NetCall [1, 1, 28, 28] [1, 10], Loss [1, 10] [1] [1], RecordExit,
        Backward [1], Step 1, SumOf [1] 1, Accuracy [1, 10] [1] (1 / 2), Clock 4,
        CollectParams [0], ListCtx 0 [Gpu 0],
        AsInContext [4, 1, 28, 28] (Gpu 0) [4, 1, 28, 28],
        AsInContext [4] (Gpu 0) [4], NetCall [4, 1, 28, 28] [4, 10],
        Accuracy [4, 10] [4] 2, AnimatorAdd 3 None None (Some (1 / 2)),
        Print (SummaryLine 1 (1 / 2) (1 / 2)),
        Print (ThroughputLine (3 / 2) (Gpu 0))]\<rparr>"

definition loop_E_locals :: locals where
  "loop_E_locals = \<lparr>the_timer = \<lparr>start_time = 0, times = []\<rparr>, metric = Some [0, 0, 0],
         train_loss = None, train_acc = None, test_acc = Some (1 / 2)\<rparr>"

definition loop_E_end :: "(nat, nat list, nat) state" where
  "loop_E_end = \<lparr>world = 1,
     trace =
       [Initialize (Some True) (Some (Gpu 0)) (Some Xavier),
        NewLoss ''SoftmaxCrossEntropyLoss'', CollectParams [0],
        NewTrainer [0] ''sgd'' (9 / 10),
        NewAnimator ''epoch'' 1 [''train loss'', ''train acc'', ''test acc''],
        Clock 0, CollectParams [0], ListCtx 0 [Gpu 0],
        AsInContext [4, 1, 28, 28] (Gpu 0) [4, 1, 28, 28],
        AsInContext [4] (Gpu 0) [4], NetCall [4, 1, 28, 28] [4, 10],
        Accuracy [4, 10] [4] 2, AnimatorAdd 1 None None (Some (1 / 2))]\<rparr>"



definition shape_end :: "(nat, nat list, nat) state" where
  "shape_end = \<lparr>world = 0,
     trace =
       [RandomUniform [1, 1, 28, 28] [1, 1, 28, 28],
        Initialize None None None,
        LayerCall 0 (Conv2D 6 5 (Some 2) (Some ''sigmoid'')) [1, 1, 28, 28] [1, 6, 28, 28],
        Print (ShapeLine ''conv'' [1, 6, 28, 28]),
        LayerCall 1 (AvgPool2D 2 2) [1, 6, 28, 28] [1, 6, 14, 14],
        Print (ShapeLine ''pool'' [1, 6, 14, 14]),
        LayerCall 2 (Conv2D 16 5 None (Some ''sigmoid'')) [1, 6, 14, 14] [1, 16, 10, 10],
        Print (ShapeLine ''conv'' [1, 16, 10, 10]),
        LayerCall 3 (AvgPool2D 2 2) [1, 16, 10, 10] [1, 16, 5, 5],
        Print (ShapeLine ''pool'' [1, 16, 5, 5]),
        LayerCall 4 (Dense 120 (Some ''sigmoid'')) [1, 16, 5, 5] [1, 120],
        Print (ShapeLine ''dense'' [1, 120]),
        LayerCall 5 (Dense 84 (Some ''sigmoid'')) [1, 120] [1, 84],
        Print (ShapeLine ''dense'' [1, 84]),
        LayerCall 6 (Dense 10 None) [1, 84] [1, 10],
        Print (ShapeLine ''dense'' [1, 10])]\<rparr>"

section \<open>Proofs\<close>

subsection \<open>Evaluating concrete runs\<close>

text \<open>
  A concrete run is computed by rewriting with the steps applied to a state, and with
  the fields of the reference framework, one call at a time.
\<close>

lemma bind_se_apply:
  "bind_se m f s = (case m s of (Inl e, s') \<Rightarrow> (Inl e, s') | (Inr a, s') \<Rightarrow> f a s')"
  by (simp add: bind_se_def)

lemma call_apply:
  "call op ev s = (case op (world s) of
      (Inl e, w') \<Rightarrow> (Inl e, s\<lparr>world := w', trace := trace s @ [Raised e]\<rparr>)
    | (Inr r, w') \<Rightarrow> (Inr r, s\<lparr>world := w', trace := trace s @ [ev r]\<rparr>))"
  by (simp add: call_def)

lemma return_se_apply: "return_se a s = (Inr a, s)"
  by (simp add: return_se_def)

lemma lift_se_apply: "lift_se x s = (x, s)"
  by (simp add: lift_se_def)

lemma print_line_apply: "print_line l s = (Inr (), s\<lparr>trace := trace s @ [Print l]\<rparr>)"
  by (simp add: print_line_def)

lemma toy_fields:
  "shape toy = (\<lambda>t. t)"
  "layer_name toy = (\<lambda>i l. case l of Conv2D c k p a \<Rightarrow> ''conv'' | AvgPool2D w s \<Rightarrow> ''pool'' | Dense n a \<Rightarrow> ''dense'')"
  "random_uniform toy = (\<lambda>sh w. (Inr sh, w))"
  "initialize toy = (\<lambda>f c i w. (Inr (), w))"
  "layer_call toy = (\<lambda>i l X w. (Inr (out_shape l X), w))"
  "new_loss toy = (\<lambda>n w. (Inr (), w))"
  "collect_params toy = (\<lambda>w. (Inr [0], w))"
  "new_trainer toy = (\<lambda>ps n lr w. (Inr (), w))"
  "new_animator toy = (\<lambda>x n l w. (Inr (), w))"
  "time_now toy = (\<lambda>w. (Inr (real w), Suc w))"
  "list_ctx toy = (\<lambda>p w. (Inr [Gpu 0], w))"
  "as_in_context toy = (\<lambda>t d w. (Inr t, w))"
  "record_enter toy = (\<lambda>w. (Inr (), w))"
  "record_exit toy = (\<lambda>w. (Inr (), w))"
  "net_call toy = (\<lambda>X w. (Inr [X ! 0, 10], w))"
  "loss_call toy = (\<lambda>yh y w. (Inr y, w))"
  "backward toy = (\<lambda>l w. (Inr (), w))"
  "trainer_step toy = (\<lambda>n w. (Inr (), w))"
  "sum_of toy = (\<lambda>l w. (Inr (real (l ! 0)), w))"
  "accuracy toy = (\<lambda>yh y w. (Inr (real (y ! 0) / 2), w))"
  "animator_add toy = (\<lambda>x a b c w. (Inr (), w))"
  by (simp_all add: toy_def)

lemma toy_oom_fields:
  "shape toy_oom = shape toy"
  "layer_name toy_oom = layer_name toy"
  "random_uniform toy_oom = random_uniform toy"
  "initialize toy_oom = initialize toy"
  "layer_call toy_oom = layer_call toy"
  "new_loss toy_oom = new_loss toy"
  "collect_params toy_oom = collect_params toy"
  "new_trainer toy_oom = new_trainer toy"
  "new_animator toy_oom = new_animator toy"
  "time_now toy_oom = time_now toy"
  "list_ctx toy_oom = list_ctx toy"
  "as_in_context toy_oom = as_in_context toy"
  "record_enter toy_oom = record_enter toy"
  "record_exit toy_oom = record_exit toy"
  "net_call toy_oom = (\<lambda>X w. if w < 2 then (Inr [X ! 0, 10], w) else (Inl (MXNetError ''out of memory''), w))"
  "loss_call toy_oom = loss_call toy"
  "backward toy_oom = backward toy"
  "trainer_step toy_oom = trainer_step toy"
  "sum_of toy_oom = sum_of toy"
  "accuracy toy_oom = accuracy toy"
  "animator_add toy_oom = animator_add toy"
  by (simp_all add: toy_oom_def)

lemma iter_fields:
  "batches_at train_data = (\<lambda>k. [([2, 1, 28, 28], [2]), ([2, 1, 28, 28], [2])])"
  "len_of train_data = Some 2"
  "batches_at test_data = (\<lambda>k. [([4, 1, 28, 28], [4])])"
  "len_of test_data = Some 1"
  by (simp_all add: train_data_def test_data_def)

lemma accumulator_values: "Accumulator 2 = [0, 0]" "Accumulator 3 = [0, 0, 0]"
  by (simp_all add: Accumulator_def numeral_2_eq_2 numeral_3_eq_3)

lemmas run_defs =
  bind_se_apply call_apply return_se_apply lift_se_apply print_line_apply
  py_index_def py_div_def get_local_def py_len_def
  accumulator_values acc_add_def timer_start_def timer_stop_def timer_sum_def nd_size_def
  resolve_ctx_def eval_batch_def evaluate_accuracy_gpu_def
  train_batch_def train_epoch_def print_summary_def print_throughput_def train_loop_def
  initial_locals_def train_ch5_def
  shape_inspection_def toy_fields toy_oom_fields iter_fields s0_def two_batches_def

subsection \<open>Successful steps\<close>

lemma bind_se_Inr:
  "bind_se m f s = (Inr b, s'') \<longleftrightarrow> (\<exists>a s'. m s = (Inr a, s') \<and> f a s' = (Inr b, s''))"
  by (auto simp: bind_se_def split: prod.splits sum.splits)

lemma bind_seE:
  assumes "bind_se m f s = (Inr b, s'')"
  obtains a s' where "m s = (Inr a, s')" and "f a s' = (Inr b, s'')"
  using assms by (auto simp: bind_se_Inr)

lemma callE:
  assumes "call op ev s = (Inr r, s')"
  obtains w' where "op (world s) = (Inr r, w')" and "s' = s\<lparr>world := w', trace := trace s @ [ev r]\<rparr>"
  using assms by (auto simp: call_def split: prod.splits sum.splits)

lemma liftE:
  assumes "lift_se x s = (Inr r, s')"
  obtains "x = Inr r" and "s' = s"
  using assms by (auto simp: lift_se_def)

lemma returnE:
  assumes "return_se a s = (Inr r, s')"
  obtains "r = a" and "s' = s"
  using assms by (auto simp: return_se_def)

lemma printE:
  assumes "print_line l s = (Inr u, s')"
  obtains "s' = s\<lparr>trace := trace s @ [Print l]\<rparr>"
  using assms by (auto simp: print_line_def)

lemma py_index_Inr: "py_index xs i = Inr x \<longleftrightarrow> i < length xs \<and> x = xs ! i"
  by (auto simp: py_index_def)

lemma py_div_Inr: "py_div a b = Inr q \<longleftrightarrow> b \<noteq> 0 \<and> q = a / b"
  by (auto simp: py_div_def)

lemma eval_batch_run:
  assumes "eval_batch fw d m b s = (Inr m', s')"
  shows "\<exists>r. trace s' = trace s @ eval_events d b r
           \<and> m' = acc_add m [ev_correct r, real (nd_size fw (ev_y r))]"
proof -
  obtain X y where b: "b = (X, y)" by (cases b)
  from assms[unfolded eval_batch_def b prod.case]
  show ?thesis
  proof (elim bind_seE callE returnE)
    fix X' s1 w1 y' s2 w2 yh s3 w3 c s4 w4
    assume "s1 = s\<lparr>world := w1, trace := trace s @ [AsInContext X d X']\<rparr>"
      "s2 = s1\<lparr>world := w2, trace := trace s1 @ [AsInContext y d y']\<rparr>"
      "s3 = s2\<lparr>world := w3, trace := trace s2 @ [NetCall X' yh]\<rparr>"
      "s4 = s3\<lparr>world := w4, trace := trace s3 @ [Accuracy yh y' c]\<rparr>"
      "m' = acc_add m [c, real (nd_size fw y')]" "s' = s4"
    then have "trace s' = trace s @ eval_events d b (EvalRun X' y' yh c)
           \<and> m' = acc_add m [ev_correct (EvalRun X' y' yh c), real (nd_size fw (ev_y (EvalRun X' y' yh c)))]"
      by (simp add: eval_events_def b)
    then show ?thesis by blast
  qed
qed

lemma eval_loop_run:
  assumes "eval_loop fw d bs m s = (Inr m', s')" and "length m = 2"
  shows "\<exists>rs. length rs = length bs
           \<and> trace s' = trace s @ concat (map2 (eval_events d) bs rs)
           \<and> m' = [m ! 0 + eval_correct rs, m ! 1 + real (eval_examples fw rs)]"
  using assms
proof (induction bs arbitrary: m s)
  case Nil
  then have "m' = m" "s' = s" by (auto elim: returnE)
  moreover from Nil(2) have "m = [m ! 0, m ! 1]"
    by (cases m; cases "tl m") auto
  ultimately show ?case
    by (intro exI[of _ "[]"]) (simp add: eval_correct_def eval_examples_def)
next
  case (Cons b bs)
  from Cons.prems(1) obtain m1 s1 where
    b1: "eval_batch fw d m b s = (Inr m1, s1)" and rest: "eval_loop fw d bs m1 s1 = (Inr m', s')"
    by (auto elim: bind_seE)
  from eval_batch_run[OF b1] obtain r where
    r: "trace s1 = trace s @ eval_events d b r"
       "m1 = acc_add m [ev_correct r, real (nd_size fw (ev_y r))]" by blast
  from Cons.prems(2) obtain a c where m: "m = [a, c]"
    by (cases m; cases "tl m") auto
  have m1: "m1 = [a + ev_correct r, c + real (nd_size fw (ev_y r))]"
    by (simp add: r(2) m acc_add_def)
  then have "length m1 = 2" by simp
  from Cons.IH[OF rest this] obtain rs where
    rs: "length rs = length bs" "trace s' = trace s1 @ concat (map2 (eval_events d) bs rs)"
        "m' = [m1 ! 0 + eval_correct rs, m1 ! 1 + real (eval_examples fw rs)]" by blast
  show ?case
    by (intro exI[of _ "r # rs"]) (simp add: rs r(1) m1 m eval_correct_def eval_examples_def)
qed

lemma resolve_ctx_run:
  assumes "resolve_ctx fw ctx s = (Inr d, s')"
  shows "\<exists>ps ds. trace s' = trace s @ resolve_events ctx ps ds \<and> d = resolved ctx ds
           \<and> (ctx = None \<longrightarrow> ps \<noteq> [] \<and> ds \<noteq> [])"
proof (cases ctx)
  case (Some c)
  with assms show ?thesis
    by (auto simp: resolve_ctx_def resolve_events_def resolved_def elim: returnE)
next
  case None
  from assms[unfolded resolve_ctx_def None option.case]
  show ?thesis
  proof (elim bind_seE callE liftE)
    fix ps s1 w1 p s2 ds s3 w3
    assume "s1 = s\<lparr>world := w1, trace := trace s @ [CollectParams ps]\<rparr>"
      "py_index ps 0 = Inr p" "s2 = s1"
      "s3 = s2\<lparr>world := w3, trace := trace s2 @ [ListCtx p ds]\<rparr>"
      "py_index ds 0 = Inr d" "s' = s3"
    then have "trace s' = trace s @ resolve_events ctx ps ds \<and> d = resolved ctx ds
           \<and> (ctx = None \<longrightarrow> ps \<noteq> [] \<and> ds \<noteq> [])"
      by (auto simp: py_index_Inr resolve_events_def resolved_def None hd_conv_nth)
    then show ?thesis by blast
  qed
qed

lemma evaluate_run:
  assumes "evaluate_accuracy_gpu fw data_iter ctx s = (Inr v, s')"
  shows "\<exists>ps ds rs. length rs = length data_iter
     \<and> trace s' = trace s @ resolve_events ctx ps ds
          @ concat (map2 (eval_events (resolved ctx ds)) data_iter rs)
     \<and> (ctx = None \<longrightarrow> ps \<noteq> [] \<and> ds \<noteq> [])
     \<and> eval_examples fw rs \<noteq> 0
     \<and> v = eval_correct rs / real (eval_examples fw rs)"
proof -
  from assms[unfolded evaluate_accuracy_gpu_def]
  obtain d s1 m s2 m0 m1 where
    d: "resolve_ctx fw ctx s = (Inr d, s1)" and
    l: "eval_loop fw d data_iter (Accumulator 2) s1 = (Inr m, s2)" and
    i: "py_index m 0 = Inr m0" "py_index m 1 = Inr m1" and
    q: "py_div m0 m1 = Inr v" and s': "s' = s2"
    by (elim bind_seE liftE) auto
  from resolve_ctx_run[OF d] obtain ps ds where
    c: "trace s1 = trace s @ resolve_events ctx ps ds" "d = resolved ctx ds"
       "ctx = None \<longrightarrow> ps \<noteq> [] \<and> ds \<noteq> []" by blast
  have "length (Accumulator 2) = 2" by (simp add: Accumulator_def)
  from eval_loop_run[OF l this] obtain rs where
    rs: "length rs = length data_iter"
        "trace s2 = trace s1 @ concat (map2 (eval_events d) data_iter rs)"
        "m = [Accumulator 2 ! 0 + eval_correct rs, Accumulator 2 ! 1 + real (eval_examples fw rs)]"
    by blast
  have m: "m = [eval_correct rs, real (eval_examples fw rs)]"
    by (simp add: rs(3) Accumulator_def numeral_2_eq_2)
  from i q have "eval_examples fw rs \<noteq> 0" "v = eval_correct rs / real (eval_examples fw rs)"
    by (auto simp: m py_index_Inr py_div_Inr)
  with c rs(1,2) s' show ?thesis by (intro exI[of _ ps] exI[of _ ds] exI[of _ rs]) simp
qed


subsection \<open>The declared network\<close>

text \<open>
  C1, as amended: the network is a fixed list of seven layers (not six) in the LeNet
  order, two convolution and pooling pairs followed by three dense layers; every
  convolution has kernel size 5 and an activation, every pooling has window 2 and
  stride 2; the output channels are 6 and 16, the dense widths 120, 84 and 10.
\<close>

theorem net_is_lenet:
  "length net = 7
   \<and> map kind_of net = [Convolution, AveragePooling, Convolution, AveragePooling,
                        FullyConnected, FullyConnected, FullyConnected]
   \<and> list_all spec_layer net
   \<and> [channels l. l \<leftarrow> net, kind_of l = Convolution] = [6, 16]
   \<and> [units l. l \<leftarrow> net, kind_of l = FullyConnected] = [120, 84, 10]"
  by (simp add: net_def)

text \<open>C1 as stated fails: the declared list does not have six layers.\<close>

theorem net_not_six_layers: "length net \<noteq> 6"
  by (simp add: net_def)

subsection \<open>The accuracy evaluation\<close>



subsection \<open>The preconditions of the accuracy evaluation\<close>

lemma eval_batch_total:
  assumes "framework_answers fw"
  shows "\<exists>c s'. eval_batch fw d m (X, y) s = (Inr (acc_add m [c, real (nd_size fw y)]), s')"
proof -
  from assms obtain X' w1 where 1: "as_in_context fw X d (world s) = (Inr X', w1)"
    unfolding framework_answers_def by metis
  from assms obtain y' w2 where 2: "as_in_context fw y d w1 = (Inr y', w2)"
    and sh: "shape fw y' = shape fw y"
    unfolding framework_answers_def by metis
  from assms obtain yh w3 where 3: "net_call fw X' w2 = (Inr yh, w3)"
    unfolding framework_answers_def by metis
  from assms obtain c w4 where 4: "accuracy fw yh y' w3 = (Inr c, w4)"
    unfolding framework_answers_def by metis
  have "eval_batch fw d m (X, y) s
          = (Inr (acc_add m [c, real (nd_size fw y)]),
             \<lparr>world = w4, trace = trace s @ eval_events d (X, y) (EvalRun X' y' yh c)\<rparr>)"
    by (simp add: eval_batch_def bind_se_def call_def return_se_def nd_size_def eval_events_def
        1 2 3 4 sh)
  then show ?thesis by blast
qed

lemma eval_loop_total:
  assumes "framework_answers fw" and "length m = 2"
  shows "\<exists>c s'. eval_loop fw d bs m s = (Inr [m ! 0 + c, m ! 1 + real (examples fw bs)], s')"
  using assms(2)
proof (induction bs arbitrary: m s)
  case Nil
  then have "m = [m ! 0, m ! 1]" by (cases m; cases "tl m") auto
  then have "eval_loop fw d [] m s = (Inr [m ! 0 + 0, m ! 1 + real (examples fw [])], s)"
    by (simp add: return_se_def examples_def)
  then show ?case by blast
next
  case (Cons b bs)
  obtain X y where b: "b = (X, y)" by (cases b)
  from Cons.prems obtain a e where m: "m = [a, e]" by (cases m; cases "tl m") auto
  from eval_batch_total[OF assms(1), of d m X y s] obtain c s1 where
    1: "eval_batch fw d [a, e] (X, y) s = (Inr [a + c, e + real (nd_size fw y)], s1)"
    by (auto simp: m acc_add_def)
  from Cons.IH[of "[a + c, e + real (nd_size fw y)]" s1] obtain c' s' where
    2: "eval_loop fw d bs [a + c, e + real (nd_size fw y)] s1
          = (Inr [a + c + c', e + real (nd_size fw y) + real (examples fw bs)], s')"
    by auto
  have "eval_loop fw d (b # bs) m s = (Inr [m ! 0 + (c + c'), m ! 1 + real (examples fw (b # bs))], s')"
    by (simp add: bind_se_def 1 2 m b examples_def add.assoc)
  then show ?case by blast
qed

lemma resolve_ctx_total:
  assumes "framework_answers fw" and "fst (collect_params fw (world s)) = Inr ps"
  shows "(ctx = None \<and> ps = [] \<longrightarrow> fst (resolve_ctx fw ctx s) = Inl IndexError)
       \<and> (\<not> (ctx = None \<and> ps = []) \<longrightarrow> (\<exists>d s'. resolve_ctx fw ctx s = (Inr d, s')))"
proof (cases ctx)
  case (Some c)
  then show ?thesis by (simp add: resolve_ctx_def return_se_def)
next
  case None
  from assms(2) obtain w1 where 1: "collect_params fw (world s) = (Inr ps, w1)"
    by (cases "collect_params fw (world s)") auto
  show ?thesis
  proof (cases ps)
    case Nil
    then show ?thesis
      by (simp add: None resolve_ctx_def bind_se_def call_def lift_se_def py_index_def 1)
  next
    case (Cons p ps')
    from assms(1) obtain ds w2 where 2: "list_ctx fw p w1 = (Inr ds, w2)" and "ds \<noteq> []"
      unfolding framework_answers_def by metis
    then show ?thesis
      by (simp add: None Cons resolve_ctx_def bind_se_def call_def lift_se_def py_index_def 1)
  qed
qed

text \<open>
  C8: with a framework whose calls all answer, and \<open>ps\<close> the parameters the network
  has, \<^verbatim>\<open>evaluate_accuracy_gpu\<close> returns a value exactly when the iterator yields at least
  one example and, if \<open>ctx\<close> is left out, the network has at least one parameter. Without
  a parameter the device lookup raises IndexError; without an example the final division
  is 0/0 and raises ZeroDivisionError.
\<close>

theorem evaluate_accuracy_gpu_defined:
  assumes "framework_answers fw" and "fst (collect_params fw (world s)) = Inr ps"
  shows "(ctx = None \<and> ps = [] \<longrightarrow>
            fst (evaluate_accuracy_gpu fw data_iter ctx s) = Inl IndexError)
       \<and> (\<not> (ctx = None \<and> ps = []) \<and> examples fw data_iter = 0 \<longrightarrow>
            fst (evaluate_accuracy_gpu fw data_iter ctx s) = Inl ZeroDivisionError)
       \<and> (\<not> (ctx = None \<and> ps = []) \<and> examples fw data_iter \<noteq> 0 \<longrightarrow>
            (\<exists>v. fst (evaluate_accuracy_gpu fw data_iter ctx s) = Inr v))"
proof (cases "ctx = None \<and> ps = []")
  case True
  with resolve_ctx_total[OF assms, of ctx]
  have "fst (resolve_ctx fw ctx s) = Inl IndexError" by simp
  then have "fst (evaluate_accuracy_gpu fw data_iter ctx s) = Inl IndexError"
    by (cases "resolve_ctx fw ctx s") (simp add: evaluate_accuracy_gpu_def bind_se_def)
  with True show ?thesis by simp
next
  case False
  with resolve_ctx_total[OF assms, of ctx] obtain d s1 where
    1: "resolve_ctx fw ctx s = (Inr d, s1)" by blast
  have "length (Accumulator 2) = 2" by (simp add: Accumulator_def)
  from eval_loop_total[OF assms(1) this, of d data_iter s1] obtain c s2 where
    2: "eval_loop fw d data_iter (Accumulator 2) s1 = (Inr [c, real (examples fw data_iter)], s2)"
    by (auto simp: Accumulator_def numeral_2_eq_2)
  have "fst (evaluate_accuracy_gpu fw data_iter ctx s)
          = py_div c (real (examples fw data_iter))"
    by (simp add: evaluate_accuracy_gpu_def bind_se_def 1 2 lift_se_def py_index_def)
  with False show ?thesis by (auto simp: py_div_def)
qed

lemma half_exists: "\<exists>c::real. x = c * 2"
  by (rule exI[of _ "x / 2"]) simp

theorem evaluate_accuracy_gpu_defined_witness:
  "framework_answers toy \<and> fst (collect_params toy (world s0)) = Inr [0]
   \<and> fst (evaluate_accuracy_gpu toy [] None s0) = Inl ZeroDivisionError
   \<and> (\<exists>v. fst (evaluate_accuracy_gpu toy two_batches None s0) = Inr v)"
proof -
  have a: "framework_answers toy" by (simp add: framework_answers_def toy_fields half_exists)
  have p: "fst (collect_params toy (world s0)) = Inr [0]" by (simp add: toy_fields s0_def)
  have e: "examples toy [] = 0" "examples toy two_batches \<noteq> 0"
    by (simp_all add: examples_def nd_size_def toy_fields two_batches_def)
  from evaluate_accuracy_gpu_defined[OF a p, of None "[]"]
       evaluate_accuracy_gpu_defined[OF a p, of None two_batches] a p e
  show ?thesis by simp
qed


subsection \<open>Errors are not caught\<close>





























subsection \<open>The calls of the training loop\<close>

lemma lift_se_Inr: "lift_se x s = (Inr r, s') \<longleftrightarrow> x = Inr r \<and> s' = s"
  by (auto simp: lift_se_def)

lemma return_se_Inr: "return_se a s = (Inr r, s') \<longleftrightarrow> r = a \<and> s' = s"
  by (auto simp: return_se_def)

lemma call_Inr:
  "call op ev s = (Inr r, s') \<longleftrightarrow>
     (\<exists>w'. op (world s) = (Inr r, w') \<and> s' = s\<lparr>world := w', trace := trace s @ [ev r]\<rparr>)"
  by (auto simp: call_def split: prod.splits sum.splits)

lemma get_local_Inr: "get_local n v = Inr x \<longleftrightarrow> v = Some x"
  by (auto simp: get_local_def split: option.splits)

lemma py_len_Inr: "py_len it = Inr n \<longleftrightarrow> len_of it = Some n"
  by (auto simp: py_len_def split: option.splits)

lemmas Inr_simps =
  bind_se_Inr call_Inr lift_se_Inr return_se_Inr py_index_Inr py_div_Inr get_local_Inr py_len_Inr

lemma train_batch_run_aux:
  assumes "train_batch fw ctx ti epoch i (X, y) L s = (Inr L', s')"
  shows "\<exists>t0 X' y' yh l lsum c t1 m. metric L = Some m \<and> shape fw X' \<noteq> []
     \<and> trace s' = trace s @ core_events fw ctx (X, y) (BatchRun t0 X' y' yh l lsum c t1)
          @ plot_events ti epoch i (batch_metric fw m (BatchRun t0 X' y' yh l lsum c t1))
     \<and> L' = batch_locals fw L (BatchRun t0 X' y' yh l lsum c t1)
     \<and> 2 < length (batch_metric fw m (BatchRun t0 X' y' yh l lsum c t1))
     \<and> batch_metric fw m (BatchRun t0 X' y' yh l lsum c t1) ! 2 \<noteq> 0"
proof (cases "(i + 1) mod 50 = 0")
  case True
  then have c: "Suc i mod 50 = 0" by simp
  from assms[unfolded train_batch_def prod.case if_P[OF True]]
  show ?thesis
    apply (elim bind_seE callE liftE returnE)
    apply (simp add: py_index_Inr py_div_Inr get_local_Inr py_len_Inr core_events_def
        plot_events_def batch_metric_def batch_locals_def metric_of_def br_n_def c)
    done
next
  case False
  then have c: "Suc i mod 50 \<noteq> 0" by simp
  from assms[unfolded train_batch_def prod.case if_not_P[OF False]]
  show ?thesis
    apply (elim bind_seE callE liftE returnE)
    apply (simp add: py_index_Inr py_div_Inr get_local_Inr py_len_Inr core_events_def
        plot_events_def batch_metric_def batch_locals_def metric_of_def br_n_def c)
    done
qed

lemma train_batch_run:
  assumes "train_batch fw ctx ti epoch i b L s = (Inr L', s')"
  shows "\<exists>r m. metric L = Some m \<and> shape fw (br_X r) \<noteq> []
     \<and> trace s' = trace s @ core_events fw ctx b r @ plot_events ti epoch i (batch_metric fw m r)
     \<and> L' = batch_locals fw L r
     \<and> 2 < length (batch_metric fw m r) \<and> batch_metric fw m r ! 2 \<noteq> 0"
proof -
  obtain X y where b: "b = (X, y)" by (cases b)
  from train_batch_run_aux[OF assms[unfolded b]] obtain t0 X' y' yh l lsum c t1 m where
    "metric L = Some m \<and> shape fw (br_X (BatchRun t0 X' y' yh l lsum c t1)) \<noteq> []
     \<and> trace s' = trace s @ core_events fw ctx b (BatchRun t0 X' y' yh l lsum c t1)
          @ plot_events ti epoch i (batch_metric fw m (BatchRun t0 X' y' yh l lsum c t1))
     \<and> L' = batch_locals fw L (BatchRun t0 X' y' yh l lsum c t1)
     \<and> 2 < length (batch_metric fw m (BatchRun t0 X' y' yh l lsum c t1))
     \<and> batch_metric fw m (BatchRun t0 X' y' yh l lsum c t1) ! 2 \<noteq> 0"
    unfolding b by auto
  then show ?thesis by blast
qed


lemma train_batches_run:
  assumes "train_batches fw ctx ti epoch i bs L s = (Inr L', s')" and "metric L = Some m"
  shows "\<exists>rs. length rs = length bs \<and> list_all (\<lambda>r. shape fw (br_X r) \<noteq> []) rs
     \<and> trace s' = trace s @ batches_events fw ctx ti epoch i m bs rs
     \<and> L' = foldl (batch_locals fw) L rs"
  using assms
proof (induction bs arbitrary: i L m s)
  case Nil
  then have "L' = L" "s' = s" by (auto elim: returnE)
  then show ?case by (intro exI[of _ "[]"]) simp
next
  case (Cons b bs)
  from Cons.prems(1) obtain L1 s1 where
    b1: "train_batch fw ctx ti epoch i b L s = (Inr L1, s1)" and
    rest: "train_batches fw ctx ti epoch (Suc i) bs L1 s1 = (Inr L', s')"
    by (auto elim: bind_seE)
  from train_batch_run[OF b1] Cons.prems(2) obtain r where
    r: "shape fw (br_X r) \<noteq> []"
       "trace s1 = trace s @ core_events fw ctx b r @ plot_events ti epoch i (batch_metric fw m r)"
       "L1 = batch_locals fw L r" by auto
  have m1: "metric L1 = Some (batch_metric fw m r)"
    by (simp add: r(3) batch_locals_def metric_of_def Cons.prems(2))
  from Cons.IH[OF rest m1] obtain rs where
    rs: "length rs = length bs" "list_all (\<lambda>r. shape fw (br_X r) \<noteq> []) rs"
        "trace s' = trace s1 @ batches_events fw ctx ti epoch (Suc i) (batch_metric fw m r) bs rs"
        "L' = foldl (batch_locals fw) L1 rs" by blast
  show ?case
    by (intro exI[of _ "r # rs"]) (simp add: rs r)
qed

lemma train_epoch_run:
  assumes "train_epoch fw ctx ti te epoch L s = (Inr L', s')"
  shows "\<exists>R. epoch_ok fw ti te epoch R
     \<and> trace s' = trace s @ epoch_events fw ctx ti te epoch R
     \<and> L' = epoch_locals fw L R"
proof -
  have "\<exists>L2 s2 a s3.
      train_batches fw ctx ti epoch 0 (batches_at ti epoch) (L\<lparr>metric := Some (Accumulator 3)\<rparr>) s
           = (Inr L2, s2)
    \<and> evaluate_accuracy_gpu fw (batches_at te epoch) None s2 = (Inr a, s3)
    \<and> trace s' = trace s3 @ [AnimatorAdd (real (epoch + 1)) None None (Some a)]
    \<and> L' = L2\<lparr>test_acc := Some a\<rparr>"
    using assms[unfolded train_epoch_def]
  proof (elim bind_seE callE returnE)
    fix L1 s1 L2 s2 a s3 u s4 w4
    assume "L1 = L\<lparr>metric := Some (Accumulator 3)\<rparr>" "s1 = s"
      "train_batches fw ctx ti epoch 0 (batches_at ti epoch) L1 s1 = (Inr L2, s2)"
      "evaluate_accuracy_gpu fw (batches_at te epoch) None s2 = (Inr a, s3)"
      "s4 = s3\<lparr>world := w4, trace := trace s3 @ [AnimatorAdd (real (epoch + 1)) None None (Some a)]\<rparr>"
      "L' = L2\<lparr>test_acc := Some a\<rparr>" "s' = s4"
    then show ?thesis by auto
  qed
  then obtain L2 s2 a s3 where
    bs: "train_batches fw ctx ti epoch 0 (batches_at ti epoch) (L\<lparr>metric := Some (Accumulator 3)\<rparr>) s
           = (Inr L2, s2)" and
    ev: "evaluate_accuracy_gpu fw (batches_at te epoch) None s2 = (Inr a, s3)" and
    an: "trace s' = trace s3 @ [AnimatorAdd (real (epoch + 1)) None None (Some a)]" and
    L': "L' = L2\<lparr>test_acc := Some a\<rparr>"
    by blast
  have "metric (L\<lparr>metric := Some (Accumulator 3)\<rparr>) = Some (Accumulator 3)" by simp
  from train_batches_run[OF bs this] obtain rs where
    rs: "length rs = length (batches_at ti epoch)" "list_all (\<lambda>r. shape fw (br_X r) \<noteq> []) rs"
        "trace s2 = trace s @ batches_events fw ctx ti epoch 0 (Accumulator 3) (batches_at ti epoch) rs"
        "L2 = foldl (batch_locals fw) (L\<lparr>metric := Some (Accumulator 3)\<rparr>) rs" by blast
  from evaluate_run[OF ev] obtain ps ds es where
    es: "length es = length (batches_at te epoch)"
        "trace s3 = trace s2 @ resolve_events None ps ds
            @ concat (map2 (eval_events (resolved None ds)) (batches_at te epoch) es)"
        "ps \<noteq> []" "ds \<noteq> []" "eval_examples fw es \<noteq> 0"
        "a = eval_correct es / real (eval_examples fw es)" by auto
  let ?R = "EpochRun rs ps ds es"
  have "epoch_ok fw ti te epoch ?R" by (simp add: epoch_ok_def rs es)
  moreover have "trace s' = trace s @ epoch_events fw ctx ti te epoch ?R"
    by (simp add: epoch_events_def an es rs test_value_def)
  moreover have "L' = epoch_locals fw L ?R"
    by (simp add: epoch_locals_def L' rs es test_value_def)
  ultimately show ?thesis by blast
qed

lemma train_epochs_run:
  assumes "train_epochs fw ctx ti te es L s = (Inr L', s')"
  shows "\<exists>Rs. list_all2 (epoch_ok fw ti te) es Rs
     \<and> trace s' = trace s @ concat (map2 (epoch_events fw ctx ti te) es Rs)
     \<and> L' = foldl (epoch_locals fw) L Rs"
  using assms
proof (induction es arbitrary: L s)
  case Nil
  then have "L' = L" "s' = s" by (auto elim: returnE)
  then show ?case by (intro exI[of _ "[]"]) simp
next
  case (Cons e es)
  from Cons.prems obtain L1 s1 where
    e1: "train_epoch fw ctx ti te e L s = (Inr L1, s1)" and
    rest: "train_epochs fw ctx ti te es L1 s1 = (Inr L', s')"
    by (auto elim: bind_seE)
  from train_epoch_run[OF e1] obtain R where
    R: "epoch_ok fw ti te e R" "trace s1 = trace s @ epoch_events fw ctx ti te e R"
       "L1 = epoch_locals fw L R" by blast
  from Cons.IH[OF rest] obtain Rs where
    Rs: "list_all2 (epoch_ok fw ti te) es Rs"
        "trace s' = trace s1 @ concat (map2 (epoch_events fw ctx ti te) es Rs)"
        "L' = foldl (epoch_locals fw) L1 Rs" by blast
  show ?case
    by (intro exI[of _ "R # Rs"]) (simp add: R Rs)
qed

lemma print_summary_run:
  assumes "print_summary L s = (Inr u, s')"
  shows "\<exists>tl ta te. train_loss L = Some tl \<and> train_acc L = Some ta \<and> test_acc L = Some te
     \<and> trace s' = trace s @ [Print (SummaryLine tl ta te)]"
  using assms unfolding print_summary_def
  by (elim bind_seE liftE printE) (auto simp: get_local_Inr)

lemma print_throughput_run:
  assumes "print_throughput n ctx L s = (Inr u, s')"
  shows "\<exists>m. metric L = Some m \<and> 2 < length m \<and> timer_sum (the_timer L) \<noteq> 0
     \<and> trace s' = trace s @ [Print (ThroughputLine (m ! 2 * real_of_int n / timer_sum (the_timer L)) ctx)]"
  using assms unfolding print_throughput_def
  by (elim bind_seE liftE printE) (auto simp: get_local_Inr py_index_Inr py_div_Inr)

lemma train_loop_run:
  assumes "train_loop fw ti te num_epochs lr ctx s = (Inr L, s')"
  shows "\<exists>ps t Rs.
       list_all2 (epoch_ok fw ti te) [0..<nat num_epochs] Rs
     \<and> L = foldl (epoch_locals fw) (initial_locals t) Rs
     \<and> trace s' = trace s @ setup_events ctx lr num_epochs ps t
          @ concat (map2 (epoch_events fw ctx ti te) [0..<nat num_epochs] Rs)"
proof -
  have "\<exists>ps t s6.
      trace s6 = trace s @ setup_events ctx lr num_epochs ps t
    \<and> train_epochs fw ctx ti te [0..<nat num_epochs] (initial_locals t) s6 = (Inr L, s')"
    using assms[unfolded train_loop_def]
  proof (elim bind_seE callE)
    fix u1 s1 w1 u2 s2 w2 ps s3 w3 u4 s4 w4 u5 s5 w5 t s6 w6
    assume "s1 = s\<lparr>world := w1, trace := trace s @ [Initialize (Some True) (Some ctx) (Some Xavier)]\<rparr>"
      "s2 = s1\<lparr>world := w2, trace := trace s1 @ [NewLoss ''SoftmaxCrossEntropyLoss'']\<rparr>"
      "s3 = s2\<lparr>world := w3, trace := trace s2 @ [CollectParams ps]\<rparr>"
      "s4 = s3\<lparr>world := w4, trace := trace s3 @ [NewTrainer ps ''sgd'' lr]\<rparr>"
      "s5 = s4\<lparr>world := w5, trace := trace s4
          @ [NewAnimator ''epoch'' num_epochs [''train loss'', ''train acc'', ''test acc'']]\<rparr>"
      "s6 = s5\<lparr>world := w6, trace := trace s5 @ [Clock t]\<rparr>"
      "train_epochs fw ctx ti te [0..<nat num_epochs] (initial_locals t) s6 = (Inr L, s')"
    then have "trace s6 = trace s @ setup_events ctx lr num_epochs ps t
      \<and> train_epochs fw ctx ti te [0..<nat num_epochs] (initial_locals t) s6 = (Inr L, s')"
      by (simp add: setup_events_def)
    then show ?thesis by blast
  qed
  then obtain ps t s6 where
    s6: "trace s6 = trace s @ setup_events ctx lr num_epochs ps t" and
    ep: "train_epochs fw ctx ti te [0..<nat num_epochs] (initial_locals t) s6 = (Inr L, s')"
    by blast
  from train_epochs_run[OF ep] obtain Rs where
    Rs: "list_all2 (epoch_ok fw ti te) [0..<nat num_epochs] Rs"
        "trace s' = trace s6 @ concat (map2 (epoch_events fw ctx ti te) [0..<nat num_epochs] Rs)"
        "L = foldl (epoch_locals fw) (initial_locals t) Rs" by blast
  show ?thesis
    apply (rule exI[of _ ps], rule exI[of _ t], rule exI[of _ Rs])
    using Rs s6 by simp
qed

lemma train_ch5_run:
  assumes "train_ch5 fw ti te num_epochs lr ctx s = (Inr u, s')"
  shows "\<exists>ps t Rs tl ta tv m.
       list_all2 (epoch_ok fw ti te) [0..<nat num_epochs] Rs
     \<and> train_loss (foldl (epoch_locals fw) (initial_locals t) Rs) = Some tl
     \<and> train_acc (foldl (epoch_locals fw) (initial_locals t) Rs) = Some ta
     \<and> test_acc (foldl (epoch_locals fw) (initial_locals t) Rs) = Some tv
     \<and> metric (foldl (epoch_locals fw) (initial_locals t) Rs) = Some m
     \<and> 2 < length m
     \<and> timer_sum (the_timer (foldl (epoch_locals fw) (initial_locals t) Rs)) \<noteq> 0
     \<and> trace s' = trace s @ setup_events ctx lr num_epochs ps t
          @ concat (map2 (epoch_events fw ctx ti te) [0..<nat num_epochs] Rs)
          @ [Print (SummaryLine tl ta tv),
             Print (ThroughputLine
               (m ! 2 * real_of_int num_epochs
                  / timer_sum (the_timer (foldl (epoch_locals fw) (initial_locals t) Rs))) ctx)]"
proof -
  from assms[unfolded train_ch5_def] obtain L s7 s8 where
    lp: "train_loop fw ti te num_epochs lr ctx s = (Inr L, s7)" and
    p1: "print_summary L s7 = (Inr (), s8)" and
    p2: "print_throughput num_epochs ctx L s8 = (Inr u, s')"
    by (elim bind_seE) auto
  from train_loop_run[OF lp] obtain ps t Rs where
    Rs: "list_all2 (epoch_ok fw ti te) [0..<nat num_epochs] Rs"
        "L = foldl (epoch_locals fw) (initial_locals t) Rs"
        "trace s7 = trace s @ setup_events ctx lr num_epochs ps t
          @ concat (map2 (epoch_events fw ctx ti te) [0..<nat num_epochs] Rs)" by blast
  from print_summary_run[OF p1] obtain tl ta tv where
    q1: "train_loss L = Some tl" "train_acc L = Some ta" "test_acc L = Some tv"
        "trace s8 = trace s7 @ [Print (SummaryLine tl ta tv)]" by blast
  from print_throughput_run[OF p2] obtain m where
    q2: "metric L = Some m" "2 < length m" "timer_sum (the_timer L) \<noteq> 0"
        "trace s' = trace s8 @ [Print (ThroughputLine (m ! 2 * real_of_int num_epochs / timer_sum (the_timer L)) ctx)]"
    by blast
  show ?thesis
    apply (rule exI[of _ ps], rule exI[of _ t], rule exI[of _ Rs], rule exI[of _ tl],
        rule exI[of _ ta], rule exI[of _ tv], rule exI[of _ m])
    using Rs q1 q2 by simp
qed

subsection \<open>Views of the trace of a run\<close>

lemma project_simps [simp]:
  "project f [] = []" "project f (x # xs) = f x @ project f xs"
  "project f (xs @ ys) = project f xs @ project f ys"
  by (simp_all add: project_def)

lemma project_concat: "project f (concat xss) = concat (map (project f) xss)"
  by (induction xss) simp_all

lemma new_events_append: "trace s' = trace s @ tr \<Longrightarrow> new_events s s' = tr"
  by (simp add: new_events_def)

lemma project_plot [simp]:
  "project step_of (plot_events ti e i m) = []"
  "project mark_of (plot_events ti e i m) = []"
  "project line_of (plot_events ti e i m) = []"
  by (simp_all add: plot_events_def)

lemma project_core [simp]:
  "project step_of (core_events fw ctx b r) = [br_n fw r]"
  "project mark_of (core_events fw ctx b r) = [TrainStep]"
  "project line_of (core_events fw ctx b r) = []"
  by (simp_all add: core_events_def)

lemma project_batches:
  assumes "length rs = length bs"
  shows "project step_of (batches_events fw ctx ti e i m bs rs) = map (br_n fw) rs"
    and "project mark_of (batches_events fw ctx ti e i m bs rs) = replicate (length rs) TrainStep"
    and "project line_of (batches_events fw ctx ti e i m bs rs) = []"
  using assms by (induction rs bs arbitrary: i m rule: list_induct2) simp_all

lemma project_evals:
  "project step_of (concat (map2 (eval_events d) bs rs)) = []"
  "project mark_of (concat (map2 (eval_events d) bs rs)) = []"
  "project line_of (concat (map2 (eval_events d) bs rs)) = []"
  by (induction bs arbitrary: rs; case_tac rs; simp add: eval_events_def)+

lemma project_epoch:
  assumes "epoch_ok fw ti te e R"
  shows "project step_of (epoch_events fw ctx ti te e R) = map (br_n fw) (ep_batches R)"
    and "project mark_of (epoch_events fw ctx ti te e R)
           = replicate (length (batches_at ti e)) TrainStep @ [Evaluation, TestRecord (real (e + 1))]"
    and "project line_of (epoch_events fw ctx ti te e R) = []"
  using assms
  by (simp_all add: epoch_events_def epoch_ok_def project_batches project_evals resolve_events_def)

lemma project_epochs:
  assumes "list_all2 (epoch_ok fw ti te) es Rs"
  shows "project step_of (concat (map2 (epoch_events fw ctx ti te) es Rs))
           = concat (map (\<lambda>R. map (br_n fw) (ep_batches R)) Rs)"
    and "project mark_of (concat (map2 (epoch_events fw ctx ti te) es Rs))
           = concat (map (\<lambda>e. replicate (length (batches_at ti e)) TrainStep
                                @ [Evaluation, TestRecord (real (e + 1))]) es)"
    and "project line_of (concat (map2 (epoch_events fw ctx ti te) es Rs)) = []"
  using assms by (induction es Rs rule: list_all2_induct) (simp_all add: project_epoch)

lemma project_setup [simp]:
  "project step_of (setup_events ctx lr n ps t) = []"
  "project mark_of (setup_events ctx lr n ps t) = []"
  "project line_of (setup_events ctx lr n ps t) = []"
  by (simp_all add: setup_events_def)

subsection \<open>The accumulator and the timer over a run\<close>

lemma foldl_batch_metric:
  "foldl (batch_metric fw) [a, b, c] rs
     = [a + sum_list (map br_lsum rs), b + sum_list (map br_correct rs),
        c + real (sum_list (map (br_n fw) rs))]"
  by (induction rs arbitrary: a b c) (simp_all add: batch_metric_def acc_add_def algebra_simps)

lemma metric_foldl_batch:
  "metric L = Some m \<Longrightarrow> metric (foldl (batch_locals fw) L rs) = Some (foldl (batch_metric fw) m rs)"
  by (induction rs arbitrary: L m) (simp_all add: batch_locals_def metric_of_def)

lemma rates_foldl_batch:
  assumes "metric L = Some m" and "rs \<noteq> []"
  shows "train_loss (foldl (batch_locals fw) L rs)
           = Some (foldl (batch_metric fw) m rs ! 0 / foldl (batch_metric fw) m rs ! 2)"
    and "train_acc (foldl (batch_locals fw) L rs)
           = Some (foldl (batch_metric fw) m rs ! 1 / foldl (batch_metric fw) m rs ! 2)"
proof -
  from assms(2) obtain rs' r where rs: "rs = rs' @ [r]" by (cases rs rule: rev_cases) auto
  have m: "metric_of (foldl (batch_locals fw) L rs') = foldl (batch_metric fw) m rs'"
    by (simp add: metric_of_def metric_foldl_batch[OF assms(1)])
  show "train_loss (foldl (batch_locals fw) L rs)
           = Some (foldl (batch_metric fw) m rs ! 0 / foldl (batch_metric fw) m rs ! 2)"
    by (simp add: rs batch_locals_def m)
  show "train_acc (foldl (batch_locals fw) L rs)
           = Some (foldl (batch_metric fw) m rs ! 1 / foldl (batch_metric fw) m rs ! 2)"
    by (simp add: rs batch_locals_def m)
qed

lemma test_acc_foldl_batch: "test_acc (foldl (batch_locals fw) L rs) = test_acc L"
  by (induction rs arbitrary: L) (simp_all add: batch_locals_def)

lemma times_foldl_batch:
  "times (the_timer (foldl (batch_locals fw) L rs))
     = times (the_timer L) @ map (\<lambda>r. br_t1 r - br_t0 r) rs"
  by (induction rs arbitrary: L) (simp_all add: batch_locals_def timer_stop_def timer_start_def)

lemma epoch_sums_rates:
  "epoch_sums fw rs ! 0 / epoch_sums fw rs ! 2 = loss_rate fw rs"
  "epoch_sums fw rs ! 1 / epoch_sums fw rs ! 2 = acc_rate fw rs"
  "epoch_sums fw rs ! Suc 0 / epoch_sums fw rs ! 2 = acc_rate fw rs"
  by (simp_all add: epoch_sums_def loss_rate_def acc_rate_def)

lemma foldl_from_zero: "foldl (batch_metric fw) (Accumulator 3) rs = epoch_sums fw rs"
  by (simp add: Accumulator_def numeral_3_eq_3 foldl_batch_metric epoch_sums_def)

lemma epoch_locals_metric: "metric (epoch_locals fw L R) = Some (epoch_sums fw (ep_batches R))"
  by (simp add: epoch_locals_def metric_foldl_batch foldl_from_zero)

lemma epoch_locals_rates:
  "train_loss (epoch_locals fw L R)
     = (if ep_batches R = [] then train_loss L else Some (loss_rate fw (ep_batches R)))"
  "train_acc (epoch_locals fw L R)
     = (if ep_batches R = [] then train_acc L else Some (acc_rate fw (ep_batches R)))"
  by (simp_all add: epoch_locals_def rates_foldl_batch foldl_from_zero epoch_sums_rates)

lemma epoch_locals_test: "test_acc (epoch_locals fw L R) = Some (test_value fw R)"
  by (simp add: epoch_locals_def)

lemma epoch_locals_times:
  "times (the_timer (epoch_locals fw L R))
     = times (the_timer L) @ map (\<lambda>r. br_t1 r - br_t0 r) (ep_batches R)"
  by (simp add: epoch_locals_def times_foldl_batch)

lemma foldl_epoch_metric:
  "Rs \<noteq> [] \<Longrightarrow> metric (foldl (epoch_locals fw) L Rs) = Some (epoch_sums fw (ep_batches (last Rs)))"
  by (cases Rs rule: rev_cases) (simp_all add: epoch_locals_metric)

lemma foldl_epoch_test:
  "Rs \<noteq> [] \<Longrightarrow> test_acc (foldl (epoch_locals fw) L Rs) = Some (test_value fw (last Rs))"
  by (cases Rs rule: rev_cases) (simp_all add: epoch_locals_test)

lemma foldl_epoch_Nil: "foldl (epoch_locals fw) L [] = L"
  by simp

lemma last_trained_snoc:
  "last_trained (Rs @ [R]) = (if ep_batches R = [] then last_trained Rs else Some R)"
  by (simp add: last_trained_def)

lemma foldl_epoch_rates:
  "train_loss (foldl (epoch_locals fw) L Rs)
     = (case last_trained Rs of None \<Rightarrow> train_loss L | Some R \<Rightarrow> Some (loss_rate fw (ep_batches R)))"
  "train_acc (foldl (epoch_locals fw) L Rs)
     = (case last_trained Rs of None \<Rightarrow> train_acc L | Some R \<Rightarrow> Some (acc_rate fw (ep_batches R)))"
proof (induction Rs rule: rev_induct)
  case Nil
  {
    case 1 show ?case by (simp add: last_trained_def)
  next
    case 2 show ?case by (simp add: last_trained_def)
  }
next
  case (snoc R Rs)
  {
    case 1 then show ?case using snoc(1) by (simp add: epoch_locals_rates last_trained_snoc)
  next
    case 2 then show ?case using snoc(2) by (simp add: epoch_locals_rates last_trained_snoc)
  }
qed

lemma foldl_epoch_times:
  "times (the_timer (foldl (epoch_locals fw) L Rs))
     = times (the_timer L) @ concat (map (\<lambda>R. map (\<lambda>r. br_t1 r - br_t0 r) (ep_batches R)) Rs)"
  by (induction Rs arbitrary: L) (simp_all add: epoch_locals_times)

lemma last_filter_last: "xs \<noteq> [] \<Longrightarrow> P (last xs) \<Longrightarrow> last (filter P xs) = last xs"
  by (cases xs rule: rev_cases) simp_all

lemma last_trained_Some:
  assumes "last_trained Rs = Some R"
  shows "R \<in> set Rs" and "ep_batches R \<noteq> []" and "ep_batches (last Rs) \<noteq> [] \<Longrightarrow> R = last Rs"
proof -
  let ?xs = "filter (\<lambda>R. ep_batches R \<noteq> []) Rs"
  from assms have ne: "?xs \<noteq> []" and R: "R = last ?xs"
    by (auto simp: last_trained_def split: if_splits)
  from last_in_set[OF ne] R have "R \<in> set ?xs" by simp
  then show "R \<in> set Rs" "ep_batches R \<noteq> []" by auto
  assume "ep_batches (last Rs) \<noteq> []"
  moreover from ne have "Rs \<noteq> []" by auto
  ultimately show "R = last Rs" using R by (simp add: last_filter_last)
qed

lemma sum_list_same:
  "list_all (\<lambda>x. f x = c) xs \<Longrightarrow> sum_list (map f xs) = length xs * (c::nat)"
  by (induction xs) simp_all

lemma initial_locals_simps [simp]:
  "train_loss (initial_locals t) = None" "train_acc (initial_locals t) = None"
  "test_acc (initial_locals t) = None" "metric (initial_locals t) = None"
  "times (the_timer (initial_locals t)) = []"
  by (simp_all add: initial_locals_def)

lemma timer_sum_foldl_epoch:
  "timer_sum (the_timer (foldl (epoch_locals fw) (initial_locals t) Rs)) = total_time Rs"
  by (simp add: timer_sum_def foldl_epoch_times total_time_def)

lemma total_time_no_batches: "\<forall>R\<in>set Rs. ep_batches R = [] \<Longrightarrow> total_time Rs = 0"
  by (induction Rs) (simp_all add: total_time_def)

lemma no_batch_runs:
  assumes ok: "list_all2 (epoch_ok fw ti te) [0..<n] Rs"
    and none: "\<forall>e<n. batches_at ti e = []"
  shows "\<forall>R\<in>set Rs. ep_batches R = []"
proof
  fix R assume "R \<in> set Rs"
  then obtain i where i: "i < length Rs" "Rs ! i = R" by (auto simp: in_set_conv_nth)
  from ok have len: "length Rs = n" by (auto dest: list_all2_lengthD)
  from list_all2_nthD2[OF ok i(1)] i len have "epoch_ok fw ti te i R" by simp
  with none i len show "ep_batches R = []" by (simp add: epoch_ok_def)
qed

lemma shape_loop_run:
  assumes "shape_loop fw ls X s = (Inr X', s')"
  shows "\<exists>tr Xs. trace s' = trace s @ tr \<and> length Xs = length ls
     \<and> project line_of tr
         = map2 (\<lambda>(i, l) Xo. ShapeLine (layer_name fw i l) (shape fw Xo)) ls Xs"
  using assms
proof (induction ls arbitrary: X s)
  case Nil
  then have "s' = s" by (auto elim: returnE)
  then show ?case by (intro exI[of _ "[]"]) simp
next
  case (Cons il ls)
  obtain i l where il: "il = (i, l)" by (cases il)
  from Cons.prems[unfolded il shape_loop.simps] obtain X1 w1 where
    rest: "shape_loop fw ls X1
             (s\<lparr>world := w1, trace := trace s
                @ [LayerCall i l X X1, Print (ShapeLine (layer_name fw i l) (shape fw X1))]\<rparr>)
           = (Inr X', s')"
    by (elim bind_seE callE printE) auto
  from Cons.IH[OF rest] obtain tr Xs where
    IH: "trace s' = trace s
           @ [LayerCall i l X X1, Print (ShapeLine (layer_name fw i l) (shape fw X1))] @ tr"
        "length Xs = length ls"
        "project line_of tr = map2 (\<lambda>(i, l) Xo. ShapeLine (layer_name fw i l) (shape fw Xo)) ls Xs"
    by auto
  show ?case
    apply (rule exI[of _ "[LayerCall i l X X1, Print (ShapeLine (layer_name fw i l) (shape fw X1))] @ tr"])
    apply (rule exI[of _ "X1 # Xs"])
    using IH by (simp add: il)
qed

subsection \<open>Concrete runs\<close>

lemma more_iter_fields:
  "batches_at gen_iter = (\<lambda>k. if k = 0 then [([2, 1, 28, 28], [2])] else [])"
  "len_of gen_iter = None"
  "batches_at uneven_iter = (\<lambda>k. if k = 0 then [] else if k = 1 then [([2, 1, 28, 28], [2])]
       else [([1, 1, 28, 28], [1])])"
  "len_of uneven_iter = None"
  "batches_at empty_iter = (\<lambda>k. [])"
  "len_of empty_iter = Some 0"
  by (simp_all add: gen_iter_def uneven_iter_def empty_iter_def)

lemmas run_all = run_defs more_iter_fields upt_rec

lemma run_A: "train_ch5 toy train_data test_data 1 (9 / 10) (Gpu 0) s0 = (Inr (), run_A_end)"
  by (simp add: run_all run_A_end_def)

lemma run_B: "train_ch5 toy gen_iter test_data 2 (9 / 10) (Gpu 0) s0 = (Inr (), run_B_end)"
  by (simp add: run_all run_B_end_def)

lemma run_C: "train_ch5 toy uneven_iter test_data 3 (9 / 10) (Gpu 0) s0 = (Inr (), run_C_end)"
  by (simp add: run_all run_C_end_def)

lemma run_E: "train_loop toy empty_iter test_data 1 (9 / 10) (Gpu 0) s0 = (Inr loop_E_locals, loop_E_end)"
  by (simp add: run_all loop_E_locals_def loop_E_end_def)


lemma run_shape: "shape_inspection toy net s0 = (Inr [1, 10], shape_end)"
  by (simp add: run_all net_def shape_end_def)


lemma new_from_s0: "new_events s0 s = trace s"
  by (simp add: new_events_def s0_def)

subsection \<open>The calls train_ch5 makes\<close>



subsection \<open>The epochs of train_ch5\<close>



subsection \<open>The accumulator of an epoch\<close>



subsection \<open>What is printed\<close>

text \<open>
  C6, as amended: the shape inspection prints exactly one line per layer of the network,
  with the name of the layer and the shape of its output, in the order of the layers; and
  \<^verbatim>\<open>train_ch5\<close> prints nothing until its end, where it prints two lines: the summary
  with loss, training accuracy and test accuracy, then a line with the throughput and the
  device.
\<close>

theorem printed_output:
  "(shape_inspection fw net s = (Inr X, s') \<longrightarrow>
      (\<exists>Xs. length Xs = length net
         \<and> project line_of (new_events s s')
             = map2 (\<lambda>(i, l) Xo. ShapeLine (layer_name fw i l) (shape fw Xo))
                 (zip [0..<length net] net) Xs))
   \<and> (train_ch5 fw train_iter test_iter num_epochs lr ctx s2 = (Inr u, s2') \<longrightarrow>
      (\<exists>tr tl ta tv q.
           new_events s2 s2' = tr @ [Print (SummaryLine tl ta tv), Print (ThroughputLine q ctx)]
         \<and> project line_of tr = []))"
proof (intro conjI impI)
  assume "shape_inspection fw net s = (Inr X, s')"
  from this[unfolded shape_inspection_def] obtain X0 w0 where
    lp: "shape_loop fw (zip [0..<length net] net) X0
           (s\<lparr>world := w0, trace := trace s
              @ [RandomUniform [1, 1, 28, 28] X0, Initialize None None None]\<rparr>)
         = (Inr X, s')"
    by (elim bind_seE callE) auto
  from shape_loop_run[OF lp] obtain tr Xs where
    r: "trace s' = trace s @ [RandomUniform [1, 1, 28, 28] X0, Initialize None None None] @ tr"
       "length Xs = length (zip [0..<length net] net)"
       "project line_of tr
         = map2 (\<lambda>(i, l) Xo. ShapeLine (layer_name fw i l) (shape fw Xo)) (zip [0..<length net] net) Xs"
    by auto
  have "trace s' = trace s @ ([RandomUniform [1, 1, 28, 28] X0, Initialize None None None] @ tr)"
    by (simp add: r)
  from new_events_append[OF this] r(2,3)
  show "\<exists>Xs. length Xs = length net
         \<and> project line_of (new_events s s')
             = map2 (\<lambda>(i, l) Xo. ShapeLine (layer_name fw i l) (shape fw Xo))
                 (zip [0..<length net] net) Xs"
    by (intro exI[of _ Xs]) simp
next
  assume "train_ch5 fw train_iter test_iter num_epochs lr ctx s2 = (Inr u, s2')"
  from train_ch5_run[OF this] obtain ps t Rs tl ta tv q where
    ok: "list_all2 (epoch_ok fw train_iter test_iter) [0..<nat num_epochs] Rs" and
    tr: "trace s2' = trace s2 @ setup_events ctx lr num_epochs ps t
          @ concat (map2 (epoch_events fw ctx train_iter test_iter) [0..<nat num_epochs] Rs)
          @ [Print (SummaryLine tl ta tv), Print (ThroughputLine q ctx)]"
    by blast
  let ?tr = "setup_events ctx lr num_epochs ps t
          @ concat (map2 (epoch_events fw ctx train_iter test_iter) [0..<nat num_epochs] Rs)"
  have "new_events s2 s2' = ?tr @ [Print (SummaryLine tl ta tv), Print (ThroughputLine q ctx)]"
    using new_events_append[OF tr] by simp
  moreover have "project line_of ?tr = []"
    by (simp add: project_epochs[OF ok])
  ultimately show "\<exists>tr tl ta tv q.
           new_events s2 s2' = tr @ [Print (SummaryLine tl ta tv), Print (ThroughputLine q ctx)]
         \<and> project line_of tr = []"
    by blast
qed

text \<open>
  On the reference framework the shape inspection prints seven lines.
\<close>

theorem printed_output_witness:
  "shape_inspection toy net s0 = (Inr [1, 10], shape_end)
   \<and> (\<exists>Xs. length Xs = length net
         \<and> project line_of (new_events s0 shape_end)
             = map2 (\<lambda>(i, l) Xo. ShapeLine (layer_name toy i l) (shape toy Xo))
                 (zip [0..<length net] net) Xs)
   \<and> train_ch5 toy train_data test_data 1 (9 / 10) (Gpu 0) s0 = (Inr (), run_A_end)
   \<and> (\<exists>tr tl ta tv q.
           new_events s0 run_A_end = tr @ [Print (SummaryLine tl ta tv), Print (ThroughputLine q (Gpu 0))]
         \<and> project line_of tr = [])
   \<and> length (project line_of (new_events s0 shape_end)) = 7"
proof -
  note a = printed_output[THEN conjunct1, THEN mp, OF run_shape]
  note b = printed_output[THEN conjunct2, THEN mp, OF run_A]
  have "length (project line_of (new_events s0 shape_end)) = 7"
    by (simp add: new_from_s0 shape_end_def)
  with run_shape run_A a b show ?thesis by blast
qed

text \<open>
  C6 as stated fails: the summary line has no throughput, which is printed on a line of
  its own after it.
\<close>

theorem two_final_lines:
  "project line_of (trace (snd (train_ch5 toy train_data test_data 1 (9 / 10) (Gpu 0) s0)))
     = [SummaryLine 1 (1 / 2) (1 / 2), ThroughputLine 2 (Gpu 0)]"
  by (simp add: run_A run_A_end_def)

subsection \<open>The names the final prints read\<close>

text \<open>
  C9, as amended: \<^verbatim>\<open>train_ch5\<close> returns only if the training iterator yields a batch in
  at least one epoch. If it yields none in any epoch and the loop itself succeeds, the
  summary print reads \<open>train_loss\<close>, which was never assigned, and \<^verbatim>\<open>train_ch5\<close> ends in
  UnboundLocalError; the timer sum is zero then, so that the throughput computation
  (for a positive epoch count, where \<open>metric\<close> is assigned) would divide by zero.
\<close>

theorem train_ch5_needs_batch:
  "(train_ch5 fw train_iter test_iter num_epochs lr ctx s = (Inr u, s') \<longrightarrow>
      (\<exists>e<nat num_epochs. batches_at train_iter e \<noteq> []))
   \<and> ((\<forall>e<nat num_epochs. batches_at train_iter e = [])
        \<and> train_loop fw train_iter test_iter num_epochs lr ctx s = (Inr L, s1) \<longrightarrow>
        train_ch5 fw train_iter test_iter num_epochs lr ctx s
          = (Inl (UnboundLocalError ''train_loss''), s1)
      \<and> timer_sum (the_timer L) = 0
      \<and> (0 < num_epochs \<longrightarrow> print_throughput num_epochs ctx L s1 = (Inl ZeroDivisionError, s1)))"
proof (intro conjI impI)
  assume "train_ch5 fw train_iter test_iter num_epochs lr ctx s = (Inr u, s')"
  from train_ch5_run[OF this] obtain t Rs tl where
    ok: "list_all2 (epoch_ok fw train_iter test_iter) [0..<nat num_epochs] Rs" and
    tl: "train_loss (foldl (epoch_locals fw) (initial_locals t) Rs) = Some tl"
    by blast
  show "\<exists>e<nat num_epochs. batches_at train_iter e \<noteq> []"
  proof (rule ccontr)
    assume "\<not> (\<exists>e<nat num_epochs. batches_at train_iter e \<noteq> [])"
    then have "\<forall>e<nat num_epochs. batches_at train_iter e = []" by blast
    from no_batch_runs[OF ok this] have "last_trained Rs = None"
      by (simp add: last_trained_def filter_empty_conv)
    with tl show False by (simp add: foldl_epoch_rates)
  qed
next
  assume a: "(\<forall>e<nat num_epochs. batches_at train_iter e = [])
        \<and> train_loop fw train_iter test_iter num_epochs lr ctx s = (Inr L, s1)"
  from train_loop_run[of fw train_iter test_iter num_epochs lr ctx s L s1] a obtain t Rs where
    ok: "list_all2 (epoch_ok fw train_iter test_iter) [0..<nat num_epochs] Rs" and
    L: "L = foldl (epoch_locals fw) (initial_locals t) Rs"
    by blast
  from a have none: "\<forall>e<nat num_epochs. batches_at train_iter e = []" by blast
  note empty = no_batch_runs[OF ok none]
  then have lt: "last_trained Rs = None" by (simp add: last_trained_def filter_empty_conv)
  then have tl: "train_loss L = None" by (simp add: L foldl_epoch_rates)
  then have ps: "print_summary L s1 = (Inl (UnboundLocalError ''train_loss''), s1)"
    by (simp add: print_summary_def bind_se_def lift_se_def get_local_def)
  from a ps show "train_ch5 fw train_iter test_iter num_epochs lr ctx s
          = (Inl (UnboundLocalError ''train_loss''), s1)"
    by (simp add: train_ch5_def bind_se_def)
  show T: "timer_sum (the_timer L) = 0"
    by (simp add: L timer_sum_foldl_epoch total_time_no_batches[OF empty])
  {
    assume "0 < num_epochs"
    with ok have ne: "Rs \<noteq> []" by (auto dest: list_all2_lengthD)
    with empty have "ep_batches (last Rs) = []" by simp
    then have "metric L = Some [0, 0, 0]"
      by (simp add: L foldl_epoch_metric[OF ne] epoch_sums_def)
    with T show "print_throughput num_epochs ctx L s1 = (Inl ZeroDivisionError, s1)"
      by (simp add: print_throughput_def bind_se_def lift_se_def get_local_def py_index_def py_div_def)
  }
qed

text \<open>
  One epoch on two batches returns; one epoch on the empty iterable ends in the unbound
  name.
\<close>

theorem train_ch5_needs_batch_witness:
  "train_ch5 toy train_data test_data 1 (9 / 10) (Gpu 0) s0 = (Inr (), run_A_end)
   \<and> (\<exists>e<nat 1. batches_at train_data e \<noteq> [])
   \<and> train_loop toy empty_iter test_data 1 (9 / 10) (Gpu 0) s0 = (Inr loop_E_locals, loop_E_end)
   \<and> train_ch5 toy empty_iter test_data 1 (9 / 10) (Gpu 0) s0
        = (Inl (UnboundLocalError ''train_loss''), loop_E_end)
   \<and> timer_sum (the_timer loop_E_locals) = 0
   \<and> print_throughput 1 (Gpu 0) loop_E_locals loop_E_end = (Inl ZeroDivisionError, loop_E_end)"
proof -
  note a = train_ch5_needs_batch[THEN conjunct1, THEN mp, OF run_A]
  have "(\<forall>e<nat 1. batches_at empty_iter e = [])
        \<and> train_loop toy empty_iter test_data 1 (9 / 10) (Gpu 0) s0 = (Inr loop_E_locals, loop_E_end)"
    by (simp add: more_iter_fields run_E)
  note b = train_ch5_needs_batch[THEN conjunct2, THEN mp, OF this]
  from run_A run_E a b show ?thesis by simp
qed

text \<open>
  C9 as stated fails: the generator yields no batch in the final epoch, and the run
  returns.
\<close>

theorem last_epoch_without_batch:
  "fst (train_ch5 toy gen_iter test_data 2 (9 / 10) (Gpu 0) s0) = Inr ()
   \<and> batches_at gen_iter (nat 2 - 1) = []"
  by (simp add: run_B more_iter_fields)

subsection \<open>The final summary\<close>

text \<open>
  C10, as amended: the loss and the training accuracy of the final summary are the
  averages over the examples of the last epoch that yielded a batch (the last epoch
  itself when it yielded one), the test accuracy is that of the last epoch, and the
  throughput printed is the example count of the last epoch times the epoch count,
  divided by the total time measured. It equals the examples processed in all epochs per
  second exactly when the example count of the last epoch times the epoch count is the
  number of examples processed, as it is when every epoch processes the same number.
\<close>

theorem train_ch5_summary:
  assumes "train_ch5 fw train_iter test_iter num_epochs lr ctx s = (Inr u, s')"
  shows "\<exists>ps t Rs R.
       list_all2 (epoch_ok fw train_iter test_iter) [0..<nat num_epochs] Rs
     \<and> Rs \<noteq> [] \<and> last_trained Rs = Some R \<and> (ep_batches (last Rs) \<noteq> [] \<longrightarrow> R = last Rs)
     \<and> total_time Rs \<noteq> 0
     \<and> new_events s s' = setup_events ctx lr num_epochs ps t
          @ concat (map2 (epoch_events fw ctx train_iter test_iter) [0..<nat num_epochs] Rs)
          @ [Print (SummaryLine (loss_rate fw (ep_batches R)) (acc_rate fw (ep_batches R))
                      (test_value fw (last Rs))),
             Print (ThroughputLine
                      (real (epoch_examples fw (last Rs)) * real_of_int num_epochs / total_time Rs) ctx)]
     \<and> (real (epoch_examples fw (last Rs)) * real_of_int num_epochs / total_time Rs
            = real (sum_list (map (epoch_examples fw) Rs)) / total_time Rs
          \<longleftrightarrow> epoch_examples fw (last Rs) * nat num_epochs = sum_list (map (epoch_examples fw) Rs))
     \<and> (list_all (\<lambda>R'. epoch_examples fw R' = epoch_examples fw (last Rs)) Rs \<longrightarrow>
          real (epoch_examples fw (last Rs)) * real_of_int num_epochs / total_time Rs
            = real (sum_list (map (epoch_examples fw) Rs)) / total_time Rs)"
proof -
  from train_ch5_run[OF assms] obtain ps t Rs tl ta tv m where
    ok: "list_all2 (epoch_ok fw train_iter test_iter) [0..<nat num_epochs] Rs" and
    tl: "train_loss (foldl (epoch_locals fw) (initial_locals t) Rs) = Some tl" and
    ta: "train_acc (foldl (epoch_locals fw) (initial_locals t) Rs) = Some ta" and
    tv: "test_acc (foldl (epoch_locals fw) (initial_locals t) Rs) = Some tv" and
    m: "metric (foldl (epoch_locals fw) (initial_locals t) Rs) = Some m" and
    T: "timer_sum (the_timer (foldl (epoch_locals fw) (initial_locals t) Rs)) \<noteq> 0" and
    tr: "trace s' = trace s @ setup_events ctx lr num_epochs ps t
          @ concat (map2 (epoch_events fw ctx train_iter test_iter) [0..<nat num_epochs] Rs)
          @ [Print (SummaryLine tl ta tv),
             Print (ThroughputLine
               (m ! 2 * real_of_int num_epochs
                  / timer_sum (the_timer (foldl (epoch_locals fw) (initial_locals t) Rs))) ctx)]"
    by blast
  from tl obtain R where R: "last_trained Rs = Some R" and tl': "tl = loss_rate fw (ep_batches R)"
    by (auto simp: foldl_epoch_rates split: option.splits)
  from ta R have ta': "ta = acc_rate fw (ep_batches R)"
    by (simp add: foldl_epoch_rates)
  from last_trained_Some(1)[OF R] have ne: "Rs \<noteq> []" by auto
  from tv have tv': "tv = test_value fw (last Rs)" by (simp add: foldl_epoch_test[OF ne])
  from m have "m = epoch_sums fw (ep_batches (last Rs))" by (simp add: foldl_epoch_metric[OF ne])
  then have m2: "m ! 2 = real (epoch_examples fw (last Rs))"
    by (simp add: epoch_sums_def epoch_examples_def)
  from T have T': "total_time Rs \<noteq> 0" by (simp add: timer_sum_foldl_epoch)
  from ok have len: "length Rs = nat num_epochs" by (auto dest: list_all2_lengthD)
  with ne have E: "real_of_int num_epochs = real (nat num_epochs)" by (cases "0 < num_epochs") auto
  have eq: "real (epoch_examples fw (last Rs)) * real_of_int num_epochs / total_time Rs
            = real (sum_list (map (epoch_examples fw) Rs)) / total_time Rs
          \<longleftrightarrow> epoch_examples fw (last Rs) * nat num_epochs = sum_list (map (epoch_examples fw) Rs)"
  proof -
    have "real (epoch_examples fw (last Rs)) * real_of_int num_epochs / total_time Rs
            = real (sum_list (map (epoch_examples fw) Rs)) / total_time Rs
          \<longleftrightarrow> real (epoch_examples fw (last Rs) * nat num_epochs)
                = real (sum_list (map (epoch_examples fw) Rs))"
      using T' by (simp add: E)
    then show ?thesis by (simp only: of_nat_eq_iff)
  qed
  have same: "list_all (\<lambda>R'. epoch_examples fw R' = epoch_examples fw (last Rs)) Rs \<longrightarrow>
          real (epoch_examples fw (last Rs)) * real_of_int num_epochs / total_time Rs
            = real (sum_list (map (epoch_examples fw) Rs)) / total_time Rs"
  proof
    assume "list_all (\<lambda>R'. epoch_examples fw R' = epoch_examples fw (last Rs)) Rs"
    from sum_list_same[OF this]
    have "epoch_examples fw (last Rs) * nat num_epochs = sum_list (map (epoch_examples fw) Rs)"
      by (simp add: len mult.commute)
    with eq show "real (epoch_examples fw (last Rs)) * real_of_int num_epochs / total_time Rs
            = real (sum_list (map (epoch_examples fw) Rs)) / total_time Rs"
      by blast
  qed
  have new: "new_events s s' = setup_events ctx lr num_epochs ps t
          @ concat (map2 (epoch_events fw ctx train_iter test_iter) [0..<nat num_epochs] Rs)
          @ [Print (SummaryLine (loss_rate fw (ep_batches R)) (acc_rate fw (ep_batches R))
                      (test_value fw (last Rs))),
             Print (ThroughputLine
                      (real (epoch_examples fw (last Rs)) * real_of_int num_epochs / total_time Rs) ctx)]"
    using new_events_append[OF tr] by (simp add: tl' ta' tv' m2 timer_sum_foldl_epoch)
  from last_trained_Some(3)[OF R] have "ep_batches (last Rs) \<noteq> [] \<longrightarrow> R = last Rs" by blast
  with ok ne R T' new eq same show ?thesis by blast
qed

text \<open>
  Three epochs on the uneven iterable.
\<close>

theorem train_ch5_summary_witness:
  "train_ch5 toy uneven_iter test_data 3 (9 / 10) (Gpu 0) s0 = (Inr (), run_C_end)
   \<and> (\<exists>ps t Rs R.
       list_all2 (epoch_ok toy uneven_iter test_data) [0..<nat 3] Rs
     \<and> Rs \<noteq> [] \<and> last_trained Rs = Some R \<and> (ep_batches (last Rs) \<noteq> [] \<longrightarrow> R = last Rs)
     \<and> total_time Rs \<noteq> 0
     \<and> new_events s0 run_C_end = setup_events (Gpu 0) (9 / 10) 3 ps t
          @ concat (map2 (epoch_events toy (Gpu 0) uneven_iter test_data) [0..<nat 3] Rs)
          @ [Print (SummaryLine (loss_rate toy (ep_batches R)) (acc_rate toy (ep_batches R))
                      (test_value toy (last Rs))),
             Print (ThroughputLine
                      (real (epoch_examples toy (last Rs)) * real_of_int 3 / total_time Rs) (Gpu 0))]
     \<and> (real (epoch_examples toy (last Rs)) * real_of_int 3 / total_time Rs
            = real (sum_list (map (epoch_examples toy) Rs)) / total_time Rs
          \<longleftrightarrow> epoch_examples toy (last Rs) * nat 3 = sum_list (map (epoch_examples toy) Rs))
     \<and> (list_all (\<lambda>R'. epoch_examples toy R' = epoch_examples toy (last Rs)) Rs \<longrightarrow>
          real (epoch_examples toy (last Rs)) * real_of_int 3 / total_time Rs
            = real (sum_list (map (epoch_examples toy) Rs)) / total_time Rs))"
  by (rule conjI[OF run_C train_ch5_summary[OF run_C]])

text \<open>
  C10 as stated fails. On the generator the last epoch has no example, and the summary
  shows the averages of the first epoch. On the uneven iterable the epochs process 0, 2
  and 1 examples, the timer measures (2 - 1) + (4 - 3) seconds, and the throughput
  printed, 3/2, is the true one.
\<close>

theorem summary_not_of_last_epoch:
  "project line_of (trace (snd (train_ch5 toy gen_iter test_data 2 (9 / 10) (Gpu 0) s0)))
     = [SummaryLine 1 (1 / 2) (1 / 2), ThroughputLine 0 (Gpu 0)]
   \<and> batches_at gen_iter (nat 2 - 1) = []
   \<and> project line_of (trace (snd (train_ch5 toy uneven_iter test_data 3 (9 / 10) (Gpu 0) s0)))
     = [SummaryLine 1 (1 / 2) (1 / 2), ThroughputLine (3 / 2) (Gpu 0)]
   \<and> map (\<lambda>e. examples toy (batches_at uneven_iter e)) [0, 1, 2] = [0, 2, 1]
   \<and> project clock_of (trace (snd (train_ch5 toy uneven_iter test_data 3 (9 / 10) (Gpu 0) s0)))
     = [0, 1, 2, 3, 4]
   \<and> (3 / 2 :: real) = (0 + 2 + 1) / ((2 - 1) + (4 - 3))"
  by (simp add: run_B run_B_end_def run_C run_C_end_def more_iter_fields examples_def nd_size_def
      toy_fields)

end
